theory Spec2Isabelle
  imports Main "HOL-Library.Multiset" "HOL-Library.Sublist"
    "HOL-Library.List_Lexorder" "HOL-Library.Char_ord"
begin

section \<open>The sample runner of the fuzzer (xls/fuzzer/sample\_runner.py)\<close>

text \<open>
  The runner drives one generated sample through the DSLX interpreter, the IR
  converter, the IR evaluator (interpreter and JIT), the optimizer, the code
  generator and the simulator, gathers the values every stage produced and
  compares them. This theory embeds the comparison methods and the
  orchestration methods of class \<open>SampleRunner\<close> and proves properties
  of them.
\<close>

subsection \<open>Exceptions\<close>

text \<open>
  Every exception the code can raise is a value. \<open>SampleError msg is_timeout\<close>
  is the class of that name. \<open>IndexError\<close> carries the text Python gives it.
  \<open>TimeoutExpired\<close> and \<open>CalledProcessError\<close> are the two exceptions of
  \<open>subprocess\<close> (with the command line), \<open>LibraryError\<close> is any other
  exception raised from inside an imported library (with its text).
\<close>

datatype exn =
    SampleError string bool
  | AssertionError
  | IndexError string
  | KeyError string
  | TypeError string
  | FileNotFoundError string
  | TimeoutExpired "string list"
  | CalledProcessError int "string list"
  | LibraryError string

type_synonym 'a result = "exn + 'a"

subsection \<open>Python text helpers\<close>

text \<open>\<open>str(n)\<close> for a non-negative integer: its decimal digits.\<close>

fun str_nat :: "nat \<Rightarrow> string" where
  "str_nat n =
     (if n < 10 then [''0123456789'' ! n]
      else str_nat (n div 10) @ [''0123456789'' ! (n mod 10)])"

declare str_nat.simps [simp del]

text \<open>\<open>sep.join(xs)\<close>.\<close>

fun join :: "string \<Rightarrow> string list \<Rightarrow> string" where
  "join sep [] = []"
| "join sep [x] = x"
| "join sep (x # y # ys) = x @ sep @ join sep (y # ys)"

text \<open>\<open>xs[i]\<close> on a tuple: out of range raises IndexError.\<close>

definition tuple_index :: "'a list \<Rightarrow> nat \<Rightarrow> 'a result" where
  "tuple_index xs i =
     (if i < length xs then Inr (xs ! i) else Inl (IndexError ''tuple index out of range''))"

text \<open>\<open>xs[i]\<close> on a list.\<close>

definition list_index :: "'a list \<Rightarrow> nat \<Rightarrow> 'a result" where
  "list_index xs i =
     (if i < length xs then Inr (xs ! i) else Inl (IndexError ''list index out of range''))"

text \<open>
  A dict is an association list in insertion order, its keys distinct.
  \<open>d[k]\<close> raises KeyError for a missing key.
\<close>

definition dict_get :: "(string \<times> 'a) list \<Rightarrow> string \<Rightarrow> 'a result" where
  "dict_get d k = (case map_of d k of None \<Rightarrow> Inl (KeyError k) | Some v \<Rightarrow> Inr v)"

text \<open>\<open>d[k] = v\<close>: an existing key keeps its place, a new key goes last.\<close>

fun dict_set :: "(string \<times> 'a) list \<Rightarrow> string \<Rightarrow> 'a \<Rightarrow> (string \<times> 'a) list" where
  "dict_set [] k v = [(k, v)]"
| "dict_set ((k', v') # d) k v = (if k' = k then (k, v) # d else (k', v') # dict_set d k v)"

text \<open>The truth value of an optional list: None and the empty list are false.\<close>

definition truthy :: "'a list option \<Rightarrow> bool" where
  "truthy x = (case x of None \<Rightarrow> False | Some xs \<Rightarrow> xs \<noteq> [])"

subsection \<open>Values\<close>

text \<open>
  Class \<open>Value\<close> (xls.dslx.python.interp\_value) is imported by the runner and
  is not part of it: the comparison methods use its methods \<open>eq\<close>,
  \<open>to_ir_str\<close> and \<open>__str__\<close> only. They are parameters of the model, in the
  record below, together with \<open>repr\<close> of a list of strings, which one message
  of the proc comparison interpolates.
\<close>

record 'v value_ops =
  values_equal :: "'v \<Rightarrow> 'v \<Rightarrow> bool"
  to_ir_str :: "'v \<Rightarrow> string"
  to_str :: "'v \<Rightarrow> string"
  repr_str_list :: "string list \<Rightarrow> string"

type_synonym 'v ArgsBatch = "'v list list"

subsection \<open>\<open>_compare_results_function\<close>\<close>

text \<open>
  The generator \<open>n for n, v in results.items() if values_equal(v[i], x)\<close>:
  it reads \<open>v[i]\<close> of every stage, in insertion order, and raises
  IndexError at the first stage that has no value at \<open>i\<close>.
\<close>

fun matches :: "'v value_ops \<Rightarrow> (string \<times> 'v list) list \<Rightarrow> nat \<Rightarrow> 'v \<Rightarrow> string list result" where
  "matches ops [] i x = Inr []"
| "matches ops ((n, v) # rest) i x =
     (case tuple_index v i of
        Inl e \<Rightarrow> Inl e
      | Inr vi \<Rightarrow>
          (case matches ops rest i x of
             Inl e \<Rightarrow> Inl e
           | Inr ns \<Rightarrow> Inr (if values_equal ops vi x then n # ns else ns)))"

text \<open>
  The body of \<open>if not values_equal(ref_result, values[i])\<close>: the two groups,
  the arguments, and the exception that is raised (the body always raises).
\<close>

definition miscompare ::
  "'v value_ops \<Rightarrow> (string \<times> 'v list) list \<Rightarrow> 'v ArgsBatch option \<Rightarrow> nat \<Rightarrow> 'v \<Rightarrow> 'v \<Rightarrow> exn" where
  "miscompare ops results args_batch i ref_result value =
     (case matches ops results i ref_result of
        Inl e \<Rightarrow> e
      | Inr rm \<Rightarrow>
     (case matches ops results i value of
        Inl e \<Rightarrow> e
      | Inr vm \<Rightarrow>
     (case (if truthy args_batch
            then (case list_index (the args_batch) i of
                    Inl e \<Rightarrow> Inl e
                  | Inr a \<Rightarrow> Inr (join ''; '' (map (to_ir_str ops) a)))
            else Inr ''(args unknown)'') of
        Inl e \<Rightarrow> e
      | Inr args \<Rightarrow>
          SampleError
            (''Result miscompare for sample '' @ str_nat i @ '':''
             @ [CHR 0x0A] @ ''args: '' @ args
             @ [CHR 0x0A] @ join '', '' (sort rm) @ '' =''
             @ [CHR 0x0A] @ ''   '' @ to_ir_str ops ref_result
             @ [CHR 0x0A] @ join '', '' (sort vm) @ '' =''
             @ [CHR 0x0A] @ ''   '' @ to_ir_str ops value)
            False)))"

text \<open>The loop \<open>for i in range(len(values))\<close>, over the indices still to visit.\<close>

fun compare_values ::
  "'v value_ops \<Rightarrow> (string \<times> 'v list) list \<Rightarrow> 'v ArgsBatch option \<Rightarrow> 'v list \<Rightarrow> 'v list
     \<Rightarrow> nat list \<Rightarrow> unit result" where
  "compare_values ops results args_batch ref_values values [] = Inr ()"
| "compare_values ops results args_batch ref_values values (i # is) =
     (case tuple_index ref_values i of
        Inl e \<Rightarrow> Inl e
      | Inr ref_result \<Rightarrow>
     (case tuple_index values i of
        Inl e \<Rightarrow> Inl e
      | Inr value \<Rightarrow>
          if \<not> values_equal ops ref_result value
          then Inl (miscompare ops results args_batch i ref_result value)
          else compare_values ops results args_batch ref_values values is))"

text \<open>The message of the length check.\<close>

definition length_message :: "string \<Rightarrow> nat \<Rightarrow> string \<Rightarrow> nat \<Rightarrow> string" where
  "length_message reference m name n =
     ''Results for '' @ reference @ '' has '' @ str_nat m @ '' values,''
     @ '' '' @ name @ '' has '' @ str_nat n"

text \<open>
  The loop \<open>for name in sorted(results.keys())\<close>, over the names still to
  visit, with the variable \<open>reference\<close> (None until the first name is seen).
\<close>

fun compare_stages ::
  "'v value_ops \<Rightarrow> (string \<times> 'v list) list \<Rightarrow> 'v ArgsBatch option \<Rightarrow> string option
     \<Rightarrow> string list \<Rightarrow> unit result" where
  "compare_stages ops results args_batch reference [] = Inr ()"
| "compare_stages ops results args_batch reference (name # names) =
     (case dict_get results name of
        Inl e \<Rightarrow> Inl e
      | Inr values \<Rightarrow>
     (case reference of
        None \<Rightarrow> compare_stages ops results args_batch (Some name) names
      | Some r \<Rightarrow>
     (case dict_get results r of
        Inl e \<Rightarrow> Inl e
      | Inr ref_values \<Rightarrow>
          if length ref_values \<noteq> length values
          then Inl (SampleError
                 (length_message r (length ref_values) name (length values)) False)
          else (case compare_values ops results args_batch ref_values values
                       [0..<length values] of
                  Inl e \<Rightarrow> Inl e
                | Inr u \<Rightarrow> compare_stages ops results args_batch (Some r) names))))"

definition compare_results_function ::
  "'v value_ops \<Rightarrow> (string \<times> 'v list) list \<Rightarrow> 'v ArgsBatch option \<Rightarrow> unit result" where
  "compare_results_function ops results args_batch =
     (if results = [] then Inr ()
      else if truthy args_batch \<and> length (snd (hd results)) \<noteq> length (the args_batch)
      then Inl AssertionError
      else compare_stages ops results args_batch None (sort (map fst results)))"

subsection \<open>\<open>_compare_results_proc\<close>\<close>

text \<open>In proc mode a stage maps channel names to value sequences.\<close>

type_synonym 'v channel_values = "(string \<times> 'v list) list"

definition channel_count_message ::
  "'v value_ops \<Rightarrow> string \<Rightarrow> 'v channel_values \<Rightarrow> string \<Rightarrow> 'v channel_values \<Rightarrow> string" where
  "channel_count_message ops reference all_ref name all_cand =
     ''Results for '' @ reference @ '' has '' @ str_nat (length all_ref) @ '' ''
     @ '' channels, '' @ name @ '' has '' @ str_nat (length all_cand) @ '' channels. ''
     @ ''The IR channel names in '' @ reference @ '' are: ''
     @ repr_str_list ops (map fst all_ref) @ ''.''
     @ ''The IR channel names in '' @ name @ '' are: ''
     @ repr_str_list ops (map fst all_cand) @ ''.''"

definition missing_channel_message :: "string \<Rightarrow> string \<Rightarrow> string \<Rightarrow> string" where
  "missing_channel_message channel_name_ref reference name =
     ''A channel named '' @ channel_name_ref @ '' is present in '' @ reference @ '', ''
     @ ''but it is not present in '' @ name @ ''.''"

definition channel_length_message ::
  "string \<Rightarrow> string \<Rightarrow> nat \<Rightarrow> string \<Rightarrow> nat \<Rightarrow> string" where
  "channel_length_message reference channel_name_ref m name n =
     ''In '' @ reference @ '', channel '' @ [CHR 0x27] @ channel_name_ref @ [CHR 0x27]
     @ '' has '' @ str_nat m @ '' entries. However, in '' @ name @ '', ''
     @ ''channel '' @ [CHR 0x27] @ channel_name_ref @ [CHR 0x27] @ '' has '' @ str_nat n
     @ '' '' @ ''entries.''"

definition channel_value_message ::
  "'v value_ops \<Rightarrow> string \<Rightarrow> nat \<Rightarrow> string \<Rightarrow> 'v \<Rightarrow> string \<Rightarrow> 'v \<Rightarrow> string" where
  "channel_value_message ops reference i channel_name_ref value_ref name value =
     ''In '' @ reference @ '', at position '' @ str_nat i @ '' channel ''
     @ [CHR 0x27] @ channel_name_ref @ [CHR 0x27] @ '' ''
     @ ''has value '' @ to_str ops value_ref @ ''. However, in '' @ name
     @ '', the value is '' @ to_str ops value @ ''.''"

text \<open>The loop \<open>for i in range(len(channel_values))\<close>, over the indices still to visit.\<close>

fun compare_channel_values ::
  "'v value_ops \<Rightarrow> string \<Rightarrow> string \<Rightarrow> string \<Rightarrow> 'v list \<Rightarrow> 'v list \<Rightarrow> nat list
     \<Rightarrow> unit result" where
  "compare_channel_values ops reference name channel_name_ref channel_values_ref
     channel_values [] = Inr ()"
| "compare_channel_values ops reference name channel_name_ref channel_values_ref
     channel_values (i # is) =
     (case list_index channel_values_ref i of
        Inl e \<Rightarrow> Inl e
      | Inr value_ref \<Rightarrow>
     (case list_index channel_values i of
        Inl e \<Rightarrow> Inl e
      | Inr value \<Rightarrow>
          if \<not> values_equal ops value_ref value
          then Inl (SampleError
                 (channel_value_message ops reference i channel_name_ref value_ref name value)
                 False)
          else compare_channel_values ops reference name channel_name_ref
                 channel_values_ref channel_values is))"

text \<open>
  The loop \<open>for channel_name_ref, channel_values_ref in all_channel_values_ref.items()\<close>,
  over the items still to visit.
\<close>

fun compare_channels ::
  "'v value_ops \<Rightarrow> string \<Rightarrow> string \<Rightarrow> 'v channel_values \<Rightarrow> 'v channel_values
     \<Rightarrow> unit result" where
  "compare_channels ops reference name all_channel_values [] = Inr ()"
| "compare_channels ops reference name all_channel_values
     ((channel_name_ref, channel_values_ref) # items) =
     (case map_of all_channel_values channel_name_ref of
        None \<Rightarrow> Inl (SampleError
                  (missing_channel_message channel_name_ref reference name) False)
      | Some channel_values \<Rightarrow>
          if length channel_values_ref \<noteq> length channel_values
          then Inl (SampleError
                 (channel_length_message reference channel_name_ref
                    (length channel_values_ref) name (length channel_values)) False)
          else (case compare_channel_values ops reference name channel_name_ref
                       channel_values_ref channel_values [0..<length channel_values] of
                  Inl e \<Rightarrow> Inl e
                | Inr u \<Rightarrow> compare_channels ops reference name all_channel_values items))"

text \<open>The loop \<open>for name in stages\<close>, over the names still to visit.\<close>

fun compare_stages_proc ::
  "'v value_ops \<Rightarrow> (string \<times> 'v channel_values) list \<Rightarrow> string \<Rightarrow> 'v channel_values
     \<Rightarrow> string list \<Rightarrow> unit result" where
  "compare_stages_proc ops results reference all_channel_values_ref [] = Inr ()"
| "compare_stages_proc ops results reference all_channel_values_ref (name # names) =
     (case dict_get results name of
        Inl e \<Rightarrow> Inl e
      | Inr all_channel_values \<Rightarrow>
          if length all_channel_values_ref \<noteq> length all_channel_values
          then Inl (SampleError
                 (channel_count_message ops reference all_channel_values_ref
                    name all_channel_values) False)
          else (case compare_channels ops reference name all_channel_values
                       all_channel_values_ref of
                  Inl e \<Rightarrow> Inl e
                | Inr u \<Rightarrow>
                    compare_stages_proc ops results reference all_channel_values_ref names))"

definition compare_results_proc ::
  "'v value_ops \<Rightarrow> (string \<times> 'v channel_values) list \<Rightarrow> unit result" where
  "compare_results_proc ops results =
     (if results = [] then Inr ()
      else (case sort (map fst results) of
              [] \<Rightarrow> Inl (IndexError ''pop from empty list'')
            | reference # stages \<Rightarrow>
                (case dict_get results reference of
                   Inl e \<Rightarrow> Inl e
                 | Inr all_channel_values_ref \<Rightarrow>
                     compare_stages_proc ops results reference all_channel_values_ref
                       stages)))"

subsection \<open>A concrete value type\<close>

text \<open>
  Modelled from the spec: class \<open>Value\<close> is not among the sources. A value is
  a bit vector of a width, tagged signed or unsigned, a tuple or an array;
  equality is over width and bit pattern and ignores the tag; the canonical
  form is the width-tagged literal, as in \<open>bits[32]:0x2a\<close>. The theorems
  below hold for every \<open>value_ops\<close>; this instance serves the examples.
\<close>

datatype Value = UBits nat nat | SBits nat nat | Tuple "Value list" | Array "Value list"

primrec unsigned_of :: "Value \<Rightarrow> Value" where
  "unsigned_of (UBits w b) = UBits w b"
| "unsigned_of (SBits w b) = UBits w b"
| "unsigned_of (Tuple vs) = Tuple (map unsigned_of vs)"
| "unsigned_of (Array vs) = Array (map unsigned_of vs)"

definition value_eq :: "Value \<Rightarrow> Value \<Rightarrow> bool" where
  "value_eq a b = (unsigned_of a = unsigned_of b)"

fun hex_nat :: "nat \<Rightarrow> string" where
  "hex_nat n =
     (if n < 16 then [''0123456789abcdef'' ! n]
      else hex_nat (n div 16) @ [''0123456789abcdef'' ! (n mod 16)])"

declare hex_nat.simps [simp del]

primrec value_to_ir_str :: "Value \<Rightarrow> string" where
  "value_to_ir_str (UBits w b) = ''bits['' @ str_nat w @ '']:0x'' @ hex_nat b"
| "value_to_ir_str (SBits w b) = ''bits['' @ str_nat w @ '']:0x'' @ hex_nat b"
| "value_to_ir_str (Tuple vs) = ''('' @ join '', '' (map value_to_ir_str vs) @ '')''"
| "value_to_ir_str (Array vs) = ''['' @ join '', '' (map value_to_ir_str vs) @ '']''"

text \<open>\<open>repr\<close> of a list of strings that need no escaping.\<close>

definition repr_names :: "string list \<Rightarrow> string" where
  "repr_names ns = ''['' @ join '', '' (map (\<lambda>n. [CHR 0x27] @ n @ [CHR 0x27]) ns) @ '']''"

definition Value_ops :: "Value value_ops" where
  "Value_ops =
     \<lparr>values_equal = value_eq, to_ir_str = value_to_ir_str, to_str = value_to_ir_str,
      repr_str_list = repr_names\<rparr>"

section \<open>Running a sample\<close>

subsection \<open>The run directory and the actions of the runner\<close>

text \<open>
  The runner owns a directory: \<open>files\<close> maps the name of each file the runner
  wrote (or found there) to its text. \<open>events\<close> is the log of what the runner
  did, in order: each call of a stage method, each subprocess it started (with
  its command line) and the call of the comparison. The timers around the
  stages measure wall-clock time and decide nothing; they are left out.
\<close>

datatype event =
    Interpret_dslx
  | Dslx_to_ir
  | Evaluate_ir string bool
  | Optimize_ir string
  | Codegen string
  | Simulate string
  | Subprocess "string list"
  | Compare_results

record runner =
  files :: "string \<rightharpoonup> string"
  events :: "event list"

text \<open>
  A method is an action on the runner that returns a value or raises; the
  files written and the events logged before a raise stay.
\<close>

type_synonym 'a action = "runner \<Rightarrow> 'a result \<times> runner"

definition returns :: "'a \<Rightarrow> 'a action" where
  "returns x s = (Inr x, s)"

definition raises :: "exn \<Rightarrow> 'a action" where
  "raises e s = (Inl e, s)"

definition lift :: "'a result \<Rightarrow> 'a action" where
  "lift r s = (r, s)"

definition andthen :: "'a action \<Rightarrow> ('a \<Rightarrow> 'b action) \<Rightarrow> 'b action" where
  "andthen m f s = (case m s of (Inl e, s') \<Rightarrow> (Inl e, s') | (Inr x, s') \<Rightarrow> f x s')"

text \<open>\<open>try: m except Exception as e: h e\<close>.\<close>

definition try_except :: "'a action \<Rightarrow> (exn \<Rightarrow> 'a action) \<Rightarrow> 'a action" where
  "try_except m h s = (case m s of (Inl e, s') \<Rightarrow> h e s' | (Inr x, s') \<Rightarrow> (Inr x, s'))"

definition log :: "event \<Rightarrow> unit action" where
  "log ev s = (Inr (), s\<lparr>events := events s @ [ev]\<rparr>)"

definition write_file :: "string \<Rightarrow> string \<Rightarrow> string action" where
  "write_file filename content s = (Inr filename, s\<lparr>files := (files s)(filename \<mapsto> content)\<rparr>)"

definition read_file :: "string \<Rightarrow> string action" where
  "read_file filename s =
     (case files s filename of
        None \<Rightarrow> (Inl (FileNotFoundError filename), s)
      | Some content \<Rightarrow> (Inr content, s))"

text \<open>
  \<open>x = None; if filename: x = parse(self._read_file(filename))\<close>: an
  optional input file, read and parsed when its name is given and not empty.
\<close>

definition read_optional :: "(string \<Rightarrow> 'a result) \<Rightarrow> string option \<Rightarrow> 'a option action" where
  "read_optional parse filename =
     (if truthy filename
      then andthen (read_file (the filename)) (\<lambda>text.
           andthen (lift (parse text)) (\<lambda>x. returns (Some x)))
      else returns None)"

subsection \<open>Options and the world outside\<close>

datatype TopType = TopType_function | TopType_proc

record SampleOptions =
  top_type :: TopType
  input_is_dslx :: bool
  convert_to_ir :: bool
  optimize_ir :: bool
  use_jit :: bool
  codegen :: bool
  simulate :: bool
  timeout_seconds :: "int option"
  simulator :: "string option"
  codegen_args :: "string list"
  ir_converter_args :: "string list"
  use_system_verilog :: bool

text \<open>
  What \<open>subprocess.run\<close> can do: the timeout expires, or the process exits
  with a return code, its standard output and its standard error.
\<close>

datatype completed = TimedOut string | Exited int string string

text \<open>
  Everything the runner imports is a parameter: the methods of \<open>Value\<close>, the
  verbosity of the logger, \<open>subprocess.run\<close> (given the command line, the
  timeout and the files of the run directory), the DSLX interpreter, the
  parsers of \<open>sample\<close> and \<open>eval_helpers\<close>, \<open>check_simulator\<close>, the revision,
  and the text Python gives an exception of a library
  (\<open>e.message\<close> or \<open>str(e)\<close>).
\<close>

record 'v env =
  vops :: "'v value_ops"
  to_human_str :: "'v \<Rightarrow> string"
  verbosity :: nat
  subprocess_run :: "string list \<Rightarrow> int option \<Rightarrow> (string \<rightharpoonup> string) \<Rightarrow> completed"
  run_function_batched :: "string \<Rightarrow> string \<Rightarrow> 'v ArgsBatch \<Rightarrow> 'v list result"
  run_proc_interp :: "string \<Rightarrow> string \<Rightarrow> 'v ArgsBatch \<Rightarrow> 'v list option \<Rightarrow> 'v channel_values result"
  interp_value_from_ir_string :: "string \<Rightarrow> 'v result"
  parse_args_batch :: "string \<Rightarrow> 'v ArgsBatch result"
  parse_ir_channel_names :: "string \<Rightarrow> string list result"
  parse_proc_init_values :: "string \<Rightarrow> 'v list result"
  channel_values_to_string :: "'v channel_values \<Rightarrow> string"
  parse_channel_values :: "string \<Rightarrow> nat \<Rightarrow> 'v channel_values result"
  check_simulator :: "string option \<Rightarrow> unit result"
  options_from_json :: "string \<Rightarrow> SampleOptions result"
  get_revision :: string
  exception_str :: "exn \<Rightarrow> string"

definition IR_CONVERTER_MAIN_PATH :: string where
  "IR_CONVERTER_MAIN_PATH = ''xls/dslx/ir_converter_main''"

definition EVAL_IR_MAIN_PATH :: string where
  "EVAL_IR_MAIN_PATH = ''xls/tools/eval_ir_main''"

definition EVAL_PROC_MAIN_PATH :: string where
  "EVAL_PROC_MAIN_PATH = ''xls/tools/eval_proc_main''"

definition IR_OPT_MAIN_PATH :: string where
  "IR_OPT_MAIN_PATH = ''xls/tools/opt_main''"

definition CODEGEN_MAIN_PATH :: string where
  "CODEGEN_MAIN_PATH = ''xls/tools/codegen_main''"

definition SIMULATE_MODULE_MAIN_PATH :: string where
  "SIMULATE_MODULE_MAIN_PATH = ''xls/tools/simulate_module_main''"

subsection \<open>\<open>_run_command\<close>\<close>

text \<open>\<open>os.path.basename\<close>: what follows the last slash.\<close>

definition basename :: "string \<Rightarrow> string" where
  "basename path = rev (takeWhile (\<lambda>c. c \<noteq> CHR ''/'') (rev path))"

text \<open>
  The command gets \<open>-v=N\<close> when the logger is verbose and \<open>--logtostderr\<close>
  always; the file for the standard error is opened (and so emptied) before
  the process starts; a timeout raises TimeoutExpired, a return code other
  than zero raises CalledProcessError (\<open>check_returncode\<close>). The description
  is logged only.
\<close>

definition run_command :: "'v env \<Rightarrow> string \<Rightarrow> string list \<Rightarrow> SampleOptions \<Rightarrow> string action" where
  "run_command env desc args options s =
     (let args1 = (if verbosity env > 0 then args @ [''-v='' @ str_nat (verbosity env)] else args)
      in case args1 of
           [] \<Rightarrow> (Inl (IndexError ''list index out of range''), s)
         | a0 # rest \<Rightarrow>
             (let stderr_path = basename a0 @ ''.stderr'';
                  cmd = args1 @ [''--logtostderr''];
                  s1 = s\<lparr>files := (files s)(stderr_path \<mapsto> []),
                         events := events s @ [Subprocess cmd]\<rparr>
              in case subprocess_run env cmd (timeout_seconds options) (files s1) of
                   TimedOut err \<Rightarrow>
                     (Inl (TimeoutExpired cmd), s1\<lparr>files := (files s1)(stderr_path \<mapsto> err)\<rparr>)
                 | Exited returncode out err \<Rightarrow>
                     (if returncode \<noteq> 0 then Inl (CalledProcessError returncode cmd)
                      else Inr out,
                      s1\<lparr>files := (files s1)(stderr_path \<mapsto> err)\<rparr>)))"

subsection \<open>The stage methods\<close>

text \<open>
  \<open>s.split(c)\<close> for a separator of one character, and \<open>s.strip()\<close>. A
  character of the model is a code point below 256; \<open>strip\<close> removes the ones
  for which \<open>str.isspace\<close> holds: the controls 0x09 to 0x0D and 0x1C to 0x1F,
  the space, NEL (0x85) and the no-break space (0xA0).
\<close>

fun split_char :: "char \<Rightarrow> string \<Rightarrow> string list" where
  "split_char c [] = [[]]"
| "split_char c (x # xs) =
     (if x = c then [] # split_char c xs
      else (case split_char c xs of [] \<Rightarrow> [[x]] | w # ws \<Rightarrow> (x # w) # ws))"

definition is_space :: "char \<Rightarrow> bool" where
  "is_space c =
     (c \<in> set [CHR 0x09, CHR 0x0A, CHR 0x0B, CHR 0x0C, CHR 0x0D,
                CHR 0x1C, CHR 0x1D, CHR 0x1E, CHR 0x1F, CHR 0x20, CHR 0x85, CHR 0xA0])"

definition strip :: "string \<Rightarrow> string" where
  "strip s = rev (dropWhile is_space (rev (dropWhile is_space s)))"

text \<open>A comprehension over a function that may raise: the first raise ends it.\<close>

fun traverse :: "('a \<Rightarrow> 'b result) \<Rightarrow> 'a list \<Rightarrow> 'b list result" where
  "traverse f [] = Inr []"
| "traverse f (x # xs) =
     (case f x of
        Inl e \<Rightarrow> Inl e
      | Inr y \<Rightarrow> (case traverse f xs of Inl e \<Rightarrow> Inl e | Inr ys \<Rightarrow> Inr (y # ys)))"

definition parse_values :: "'v env \<Rightarrow> string \<Rightarrow> 'v list result" where
  "parse_values env s =
     traverse (interp_value_from_ir_string env)
       (filter (\<lambda>line. line \<noteq> []) (map strip (split_char (CHR 0x0A) s)))"

definition interpret_dslx_function ::
  "'v env \<Rightarrow> string \<Rightarrow> string \<Rightarrow> 'v ArgsBatch \<Rightarrow> 'v list action" where
  "interpret_dslx_function env text top_name args_batch =
     andthen (log Interpret_dslx) (\<lambda>u.
     andthen (lift (run_function_batched env text top_name args_batch)) (\<lambda>dslx_results.
     andthen (write_file ''sample.x.results''
                (join [CHR 0x0A] (map (to_ir_str (vops env)) dslx_results))) (\<lambda>f.
     returns dslx_results)))"

definition interpret_dslx_proc ::
  "'v env \<Rightarrow> string \<Rightarrow> string \<Rightarrow> 'v ArgsBatch \<Rightarrow> 'v list option \<Rightarrow> 'v channel_values action" where
  "interpret_dslx_proc env text top_name args_batch proc_init_values =
     andthen (log Interpret_dslx) (\<lambda>u.
     andthen (lift (run_proc_interp env text top_name args_batch proc_init_values))
       (\<lambda>dslx_results.
     andthen (write_file ''sample.x.results'' (channel_values_to_string env dslx_results))
       (\<lambda>f.
     returns dslx_results)))"

definition evaluate_ir_function ::
  "'v env \<Rightarrow> string \<Rightarrow> string \<Rightarrow> bool \<Rightarrow> SampleOptions \<Rightarrow> 'v list action" where
  "evaluate_ir_function env ir_filename args_filename jit options =
     andthen (log (Evaluate_ir ir_filename jit)) (\<lambda>u.
     andthen (run_command env
                (''Evaluating IR file ('' @ (if jit then ''JIT'' else ''interpreter'')
                 @ ''): '' @ ir_filename)
                [EVAL_IR_MAIN_PATH, ''--input_file='' @ args_filename,
                 if jit then ''--use_llvm_jit'' else ''--nouse_llvm_jit'', ir_filename]
                options) (\<lambda>results_text.
     andthen (write_file (ir_filename @ ''.results'') results_text) (\<lambda>f.
     lift (parse_values env results_text))))"

text \<open>
  The text of the TypeError that Python raises when \<open>None\<close> is iterated over:
  \<open>'NoneType' object is not iterable\<close>.
\<close>

definition NoneType_not_iterable :: string where
  "NoneType_not_iterable = [CHR 0x27] @ ''NoneType'' @ [CHR 0x27] @ '' object is not iterable''"

text \<open>
  \<open>{k: [] for k in ir_channel_names}\<close>, \<open>d[k].append(v)\<close>, and the loop over
  the batch that files each argument under the name of its channel.
\<close>

definition empty_channels :: "string list \<Rightarrow> 'v channel_values" where
  "empty_channels names = fold (\<lambda>k d. dict_set d k []) names []"

definition dict_append :: "'v channel_values \<Rightarrow> string \<Rightarrow> 'v \<Rightarrow> 'v channel_values" where
  "dict_append d k v = map (\<lambda>(k', vs). if k' = k then (k', vs @ [v]) else (k', vs)) d"

fun channel_inputs ::
  "string list \<Rightarrow> 'v list list \<Rightarrow> 'v channel_values \<Rightarrow> 'v channel_values result" where
  "channel_inputs names [] d = Inr d"
| "channel_inputs names (channel_values # rows) d =
     (if length channel_values \<noteq> length names then Inl AssertionError
      else channel_inputs names rows
             (fold (\<lambda>i d. dict_append d (names ! i) (channel_values ! i))
                [0..<length channel_values] d))"

definition evaluate_ir_proc ::
  "'v env \<Rightarrow> string \<Rightarrow> 'v ArgsBatch option \<Rightarrow> string list option \<Rightarrow> bool \<Rightarrow> SampleOptions
     \<Rightarrow> 'v channel_values action" where
  "evaluate_ir_proc env ir_filename args_batch ir_channel_names jit options =
     andthen (log (Evaluate_ir ir_filename jit)) (\<lambda>u.
     (case ir_channel_names of
        None \<Rightarrow> raises (TypeError NoneType_not_iterable)
      | Some names \<Rightarrow>
     (case args_batch of
        None \<Rightarrow> raises (TypeError NoneType_not_iterable)
      | Some batch \<Rightarrow>
     andthen (lift (channel_inputs names batch (empty_channels names))) (\<lambda>all_channel_values.
     andthen (write_file ''channel_inputs.txt''
                (channel_values_to_string env all_channel_values))
       (\<lambda>channel_values_filename.
     andthen (run_command env
                (''Evaluating IR file ('' @ (if jit then ''JIT'' else ''interpreter'')
                 @ ''): '' @ ir_filename)
                [EVAL_PROC_MAIN_PATH,
                 ''--inputs_for_all_channels='' @ channel_values_filename,
                 ''--ticks='' @ str_nat (length batch),
                 ''--backend='' @ (if jit then ''serial_jit'' else ''ir_interpreter''),
                 ir_filename]
                options) (\<lambda>results_text.
     andthen (write_file (ir_filename @ ''.results'') results_text) (\<lambda>f.
     lift (parse_channel_values env results_text (length batch)))))))))"

definition dslx_to_ir_function :: "'v env \<Rightarrow> string \<Rightarrow> SampleOptions \<Rightarrow> string action" where
  "dslx_to_ir_function env dslx_filename options =
     andthen (log Dslx_to_ir) (\<lambda>u.
     andthen (run_command env ''Converting DSLX to IR''
                ([IR_CONVERTER_MAIN_PATH]
                 @ (if ir_converter_args options \<noteq> [] then ir_converter_args options else [])
                 @ [dslx_filename])
                options) (\<lambda>ir_text.
     write_file ''sample.ir'' ir_text))"

definition dslx_to_ir_proc ::
  "'v env \<Rightarrow> string \<Rightarrow> 'v list option \<Rightarrow> SampleOptions \<Rightarrow> string action" where
  "dslx_to_ir_proc env dslx_filename proc_init_values options =
     andthen (log Dslx_to_ir) (\<lambda>u.
     (case proc_init_values of
        None \<Rightarrow> raises (TypeError NoneType_not_iterable)
      | Some init_values \<Rightarrow>
     andthen (run_command env ''Converting DSLX to IR''
                ([IR_CONVERTER_MAIN_PATH]
                 @ (if ir_converter_args options \<noteq> [] then ir_converter_args options else [])
                 @ [''--top_proc_initial_state=''
                    @ join '','' (map (to_human_str env) init_values)]
                 @ [dslx_filename])
                options) (\<lambda>ir_text.
     write_file ''sample.ir'' ir_text)))"

definition optimize_ir_method :: "'v env \<Rightarrow> string \<Rightarrow> SampleOptions \<Rightarrow> string action" where
  "optimize_ir_method env ir_filename options =
     andthen (log (Optimize_ir ir_filename)) (\<lambda>u.
     andthen (run_command env ''Optimizing IR'' [IR_OPT_MAIN_PATH, ir_filename] options)
       (\<lambda>opt_ir_text.
     write_file ''sample.opt.ir'' opt_ir_text))"

definition codegen_method ::
  "'v env \<Rightarrow> string \<Rightarrow> string list \<Rightarrow> SampleOptions \<Rightarrow> string action" where
  "codegen_method env ir_filename cg_args options =
     andthen (log (Codegen ir_filename)) (\<lambda>u.
     andthen (run_command env ''Generating Verilog''
                ([CODEGEN_MAIN_PATH, ''--output_signature_path=module_sig.textproto'',
                  ''--delay_model=unit''] @ cg_args @ [ir_filename])
                options) (\<lambda>verilog_text.
     write_file (if use_system_verilog options then ''sample.sv'' else ''sample.v'')
       verilog_text))"

definition simulate_function ::
  "'v env \<Rightarrow> string \<Rightarrow> string \<Rightarrow> string \<Rightarrow> SampleOptions \<Rightarrow> 'v list action" where
  "simulate_function env verilog_filename module_sig_filename args_filename options =
     andthen (log (Simulate verilog_filename)) (\<lambda>u.
     andthen (lift (check_simulator env (simulator options))) (\<lambda>u.
     andthen (run_command env (''Simulating Verilog '' @ verilog_filename)
                ([SIMULATE_MODULE_MAIN_PATH, ''--signature_file='' @ module_sig_filename,
                  ''--args_file='' @ args_filename]
                 @ (if truthy (simulator options)
                    then [''--verilog_simulator='' @ the (simulator options)] else [])
                 @ [verilog_filename])
                options) (\<lambda>results_text.
     andthen (write_file (verilog_filename @ ''.results'') results_text) (\<lambda>f.
     lift (parse_values env results_text)))))"

definition simulate_proc :: "'v channel_values action" where
  "simulate_proc = raises (SampleError ''Simulation for procs are not supported.'' False)"

subsection \<open>\<open>_run_function\<close>\<close>

text \<open>
  The method is embedded in three parts, in the order of the source: the
  stages that need the IR file (from \<open>if args_filename is not None\<close> to the
  simulation), the whole of the stages (from reading the input on; the
  result is None where the source returns early), and the method itself,
  which ends with the comparison.
\<close>

definition run_function_ir ::
  "'v env \<Rightarrow> SampleOptions \<Rightarrow> string \<Rightarrow> string option \<Rightarrow> (string \<times> 'v list) list
     \<Rightarrow> (string \<times> 'v list) list action" where
  "run_function_ir env options ir_filename args_filename results0 =
     andthen
       (if args_filename \<noteq> None
        then andthen (evaluate_ir_function env ir_filename (the args_filename) False options)
               (\<lambda>vs.
                  if use_jit options
                  then andthen
                         (evaluate_ir_function env ir_filename (the args_filename) True options)
                         (\<lambda>ws. returns
                            (dict_set (dict_set results0 ''evaluated unopt IR (interpreter)'' vs)
                               ''evaluated unopt IR (JIT)'' ws))
                  else returns (dict_set results0 ''evaluated unopt IR (interpreter)'' vs))
        else returns results0)
       (\<lambda>results1.
     if optimize_ir options
     then andthen (optimize_ir_method env ir_filename options) (\<lambda>opt_ir_filename.
          andthen
            (if args_filename \<noteq> None
             then andthen
                    (if use_jit options
                     then andthen
                            (evaluate_ir_function env opt_ir_filename (the args_filename) True
                               options)
                            (\<lambda>vs. returns (dict_set results1 ''evaluated opt IR (JIT)'' vs))
                     else returns results1)
                    (\<lambda>results2.
                  andthen
                    (evaluate_ir_function env opt_ir_filename (the args_filename) False
                       options)
                    (\<lambda>vs. returns (dict_set results2 ''evaluated opt IR (interpreter)'' vs)))
             else returns results1)
            (\<lambda>results3.
          if codegen options
          then andthen (codegen_method env opt_ir_filename (codegen_args options) options)
                 (\<lambda>verilog_filename.
                    if simulate options
                    then (if args_filename = None then raises AssertionError
                          else andthen
                                 (simulate_function env verilog_filename
                                    ''module_sig.textproto'' (the args_filename) options)
                                 (\<lambda>vs. returns (dict_set results3 ''simulated'' vs)))
                    else returns results3)
          else returns results3))
     else returns results1)"

definition run_function_stages ::
  "'v env \<Rightarrow> string \<Rightarrow> SampleOptions \<Rightarrow> string option
     \<Rightarrow> ((string \<times> 'v list) list \<times> 'v ArgsBatch option) option action" where
  "run_function_stages env input_filename options args_filename =
     andthen (read_file input_filename) (\<lambda>input_text.
     andthen
       (read_optional (parse_args_batch env) args_filename)
       (\<lambda>args_batch.
     if input_is_dslx options
     then andthen
            (if truthy args_batch
             then andthen (interpret_dslx_function env input_text ''main'' (the args_batch))
                    (\<lambda>vs. returns (dict_set [] ''interpreted DSLX'' vs))
             else returns [])
            (\<lambda>results.
          if \<not> convert_to_ir options then returns None
          else andthen (dslx_to_ir_function env input_filename options) (\<lambda>ir_filename.
               andthen (run_function_ir env options ir_filename args_filename results)
                 (\<lambda>results'. returns (Some (results', args_batch)))))
     else andthen (write_file ''sample.ir'' input_text) (\<lambda>ir_filename.
          andthen (run_function_ir env options ir_filename args_filename [])
            (\<lambda>results'. returns (Some (results', args_batch))))))"

definition run_function ::
  "'v env \<Rightarrow> string \<Rightarrow> SampleOptions \<Rightarrow> string option \<Rightarrow> unit action" where
  "run_function env input_filename options args_filename =
     andthen (run_function_stages env input_filename options args_filename) (\<lambda>r.
       case r of
         None \<Rightarrow> returns ()
       | Some (results, args_batch) \<Rightarrow>
           andthen (log Compare_results) (\<lambda>u.
           lift (compare_results_function (vops env) results args_batch)))"

subsection \<open>\<open>_run_proc\<close>\<close>

definition run_proc_ir ::
  "'v env \<Rightarrow> SampleOptions \<Rightarrow> string \<Rightarrow> string option \<Rightarrow> 'v ArgsBatch option
     \<Rightarrow> string list option \<Rightarrow> (string \<times> 'v channel_values) list
     \<Rightarrow> (string \<times> 'v channel_values) list action" where
  "run_proc_ir env options ir_filename args_filename args_batch ir_channel_names results0 =
     andthen
       (if args_filename \<noteq> None
        then andthen
               (evaluate_ir_proc env ir_filename args_batch ir_channel_names False options)
               (\<lambda>vs.
                  if use_jit options
                  then andthen
                         (evaluate_ir_proc env ir_filename args_batch ir_channel_names True
                            options)
                         (\<lambda>ws. returns
                            (dict_set (dict_set results0 ''evaluated unopt IR (interpreter)'' vs)
                               ''evaluated unopt IR (JIT)'' ws))
                  else returns (dict_set results0 ''evaluated unopt IR (interpreter)'' vs))
        else returns results0)
       (\<lambda>results1.
     if optimize_ir options
     then andthen (optimize_ir_method env ir_filename options) (\<lambda>opt_ir_filename.
          andthen
            (if args_filename \<noteq> None
             then andthen
                    (if use_jit options
                     then andthen
                            (evaluate_ir_proc env opt_ir_filename args_batch ir_channel_names
                               True options)
                            (\<lambda>vs. returns (dict_set results1 ''evaluated opt IR (JIT)'' vs))
                     else returns results1)
                    (\<lambda>results2.
                  andthen
                    (evaluate_ir_proc env opt_ir_filename args_batch ir_channel_names False
                       options)
                    (\<lambda>vs. returns (dict_set results2 ''evaluated opt IR (interpreter)'' vs)))
             else returns results1)
            (\<lambda>results3.
          if codegen options
          then andthen (codegen_method env opt_ir_filename (codegen_args options) options)
                 (\<lambda>verilog_filename.
                    if simulate options
                    then (if args_filename = None then raises AssertionError
                          else andthen simulate_proc
                                 (\<lambda>vs. returns (dict_set results3 ''simulated'' vs)))
                    else returns results3)
          else returns results3))
     else returns results1)"

definition run_proc_stages ::
  "'v env \<Rightarrow> string \<Rightarrow> SampleOptions \<Rightarrow> string option \<Rightarrow> string option \<Rightarrow> string option
     \<Rightarrow> (string \<times> 'v channel_values) list option action" where
  "run_proc_stages env input_filename options args_filename ir_channel_names_filename
     proc_init_values_filename =
     andthen (read_file input_filename) (\<lambda>input_text.
     andthen
       (read_optional (parse_args_batch env) args_filename)
       (\<lambda>args_batch.
     andthen
       (read_optional (parse_ir_channel_names env) ir_channel_names_filename)
       (\<lambda>ir_channel_names.
     andthen
       (read_optional (parse_proc_init_values env) proc_init_values_filename)
       (\<lambda>proc_init_values.
     if input_is_dslx options
     then andthen
            (if truthy args_batch
             then andthen
                    (interpret_dslx_proc env input_text ''main'' (the args_batch)
                       proc_init_values)
                    (\<lambda>vs. returns (dict_set [] ''interpreted DSLX'' vs))
             else returns [])
            (\<lambda>results.
          if \<not> convert_to_ir options then returns None
          else andthen (dslx_to_ir_proc env input_filename proc_init_values options)
                 (\<lambda>ir_filename.
               andthen
                 (run_proc_ir env options ir_filename args_filename args_batch
                    ir_channel_names results)
                 (\<lambda>results'. returns (Some results'))))
     else andthen (write_file ''sample.ir'' input_text) (\<lambda>ir_filename.
          andthen
            (run_proc_ir env options ir_filename args_filename args_batch ir_channel_names [])
            (\<lambda>results'. returns (Some results')))))))"

definition run_proc ::
  "'v env \<Rightarrow> string \<Rightarrow> SampleOptions \<Rightarrow> string option \<Rightarrow> string option \<Rightarrow> string option
     \<Rightarrow> unit action" where
  "run_proc env input_filename options args_filename ir_channel_names_filename
     proc_init_values_filename =
     andthen
       (run_proc_stages env input_filename options args_filename ir_channel_names_filename
          proc_init_values_filename) (\<lambda>r.
       case r of
         None \<Rightarrow> returns ()
       | Some results \<Rightarrow>
           andthen (log Compare_results) (\<lambda>u.
           lift (compare_results_proc (vops env) results)))"

subsection \<open>\<open>run_from_files\<close>\<close>

text \<open>
  The text of an exception: \<open>e.message if hasattr(e, 'message') else str(e)\<close>.
  For the exceptions the runner raises itself it is the message they were
  built with (none for a failed \<open>assert\<close>); for the others it is what the
  library gives.
\<close>

definition exception_msg :: "'v env \<Rightarrow> exn \<Rightarrow> string" where
  "exception_msg env e =
     (case e of
        SampleError msg t \<Rightarrow> msg
      | AssertionError \<Rightarrow> []
      | IndexError msg \<Rightarrow> msg
      | TypeError msg \<Rightarrow> msg
      | _ \<Rightarrow> exception_str env e)"

text \<open>\<open>isinstance(e, subprocess.TimeoutExpired)\<close>.\<close>

definition is_TimeoutExpired :: "exn \<Rightarrow> bool" where
  "is_TimeoutExpired e = (case e of TimeoutExpired cmd \<Rightarrow> True | _ \<Rightarrow> False)"

text \<open>The part of the method inside \<open>try\<close>: the dispatch on the type of the top.\<close>

definition run_sample ::
  "'v env \<Rightarrow> SampleOptions \<Rightarrow> string \<Rightarrow> string option \<Rightarrow> string option \<Rightarrow> string option
     \<Rightarrow> unit action" where
  "run_sample env options input_filename args_filename ir_channel_names_filename
     proc_init_values_filename =
     (case top_type options of
        TopType_function \<Rightarrow> run_function env input_filename options args_filename
      | TopType_proc \<Rightarrow>
          run_proc env input_filename options args_filename ir_channel_names_filename
            proc_init_values_filename)"

definition run_from_files ::
  "'v env \<Rightarrow> string \<Rightarrow> string \<Rightarrow> string option \<Rightarrow> string option \<Rightarrow> string option
     \<Rightarrow> unit action" where
  "run_from_files env input_filename json_options_filename args_filename
     ir_channel_names_filename proc_init_values_filename =
     andthen (read_file json_options_filename) (\<lambda>json.
     andthen (lift (options_from_json env json)) (\<lambda>options.
     andthen (write_file ''revision.txt'' (get_revision env)) (\<lambda>f.
     try_except
       (run_sample env options input_filename args_filename ir_channel_names_filename
          proc_init_values_filename)
       (\<lambda>e.
          andthen (write_file ''exception.txt'' (exception_msg env e)) (\<lambda>f.
          raises (SampleError (exception_msg env e) (is_TimeoutExpired e)))))))"

subsection \<open>What an action logs\<close>

text \<open>
  \<open>only_logs P m\<close>: whatever the runner was before, \<open>m\<close> leaves the events
  logged so far in place and every event it adds satisfies \<open>P\<close>.
\<close>

definition only_logs :: "(event \<Rightarrow> bool) \<Rightarrow> 'a action \<Rightarrow> bool" where
  "only_logs P m =
     (\<forall>s. \<exists>evs. events (snd (m s)) = events s @ evs \<and> (\<forall>ev \<in> set evs. P ev))"

text \<open>
  \<open>never_returns m\<close>: \<open>m\<close> raises, whatever the runner was before.
  \<open>raises_only e m\<close>: it raises \<open>e\<close>. \<open>succeeds m\<close>: it returns.
\<close>

definition never_returns :: "'a action \<Rightarrow> bool" where
  "never_returns m = (\<forall>s. \<exists>e. fst (m s) = Inl e)"

definition raises_only :: "exn \<Rightarrow> 'a action \<Rightarrow> bool" where
  "raises_only e m = (\<forall>s. fst (m s) = Inl e)"

definition succeeds :: "'a action \<Rightarrow> bool" where
  "succeeds m = (\<forall>s. \<exists>x. fst (m s) = Inr x)"

subsection \<open>A world for the examples\<close>

text \<open>
  Test doubles for what the runner imports, over the concrete values: the
  tools are one function from the command line to what the process does; the
  interpreter returns the signed 5 for every argument list; every line of a
  result file parses to the unsigned 5; the options file yields the given
  options.
\<close>

definition demo_env :: "(string list \<Rightarrow> completed) \<Rightarrow> SampleOptions \<Rightarrow> Value env" where
  "demo_env tool options =
     \<lparr>vops = Value_ops,
      to_human_str = value_to_ir_str,
      verbosity = 0,
      subprocess_run = (\<lambda>cmd t fs. tool cmd),
      run_function_batched = (\<lambda>txt tname batch. Inr (map (\<lambda>a. SBits 8 5) batch)),
      run_proc_interp = (\<lambda>txt tname batch init. Inr [(''out'', map (\<lambda>a. SBits 8 5) batch)]),
      interp_value_from_ir_string = (\<lambda>line. Inr (UBits 8 5)),
      parse_args_batch = (\<lambda>txt. Inr [[UBits 8 1]]),
      parse_ir_channel_names = (\<lambda>txt. Inr [''in'']),
      parse_proc_init_values = (\<lambda>txt. Inr [UBits 8 0]),
      channel_values_to_string = (\<lambda>d. join [CHR 0x0A] (map fst d)),
      parse_channel_values = (\<lambda>txt ticks. Inr [(''out'', replicate ticks (UBits 8 5))]),
      check_simulator = (\<lambda>sim. Inr ()),
      options_from_json = (\<lambda>json. Inr options),
      get_revision = ''r1'',
      exception_str = (\<lambda>e. ''tool failed'')\<rparr>"

definition tools_ok :: "string list \<Rightarrow> completed" where
  "tools_ok cmd = Exited 0 ''bits[8]:0x5'' []"

definition opt_times_out :: "string list \<Rightarrow> completed" where
  "opt_times_out cmd =
     (if hd cmd = IR_OPT_MAIN_PATH then TimedOut [] else Exited 0 ''bits[8]:0x5'' [])"

definition demo_options :: SampleOptions where
  "demo_options =
     \<lparr>top_type = TopType_function, input_is_dslx = False, convert_to_ir = True,
      optimize_ir = True, use_jit = False, codegen = True, simulate = True,
      timeout_seconds = Some 10, simulator = None, codegen_args = [],
      ir_converter_args = [], use_system_verilog = False\<rparr>"

definition demo_runner :: runner where
  "demo_runner =
     \<lparr>files = [''sample.ir'' \<mapsto> ''package sample'', ''sample.x'' \<mapsto> ''fn main'',
               ''options.json'' \<mapsto> ''{}'', ''args.txt'' \<mapsto> ''bits[8]:0x1''],
      events = []\<rparr>"

text \<open>
  \<open>always_succeeds env tool\<close>: every run of the program \<open>tool\<close>, whatever its
  arguments, the timeout and the files of the run directory, exits with
  code 0.
\<close>

definition always_succeeds :: "'v env \<Rightarrow> string \<Rightarrow> bool" where
  "always_succeeds env tool =
     (\<forall>args t fs. \<exists>out err. subprocess_run env (tool # args) t fs = Exited 0 out err)"

section \<open>Properties\<close>

subsection \<open>The comparison does not depend on the insertion order of the stages\<close>

lemma sort_cong_mset: "mset xs = mset ys \<Longrightarrow> sort xs = sort ys"
  by (rule properties_for_sort) simp_all

lemma sort_keys_perm:
  "mset rs = mset rs' \<Longrightarrow> sort (map fst rs) = sort (map fst rs')"
  by (rule sort_cong_mset) simp

lemma distinct_keys_perm:
  assumes "mset rs = mset rs'" "distinct (map fst rs)"
  shows "distinct (map fst rs')"
proof -
  have "mset (map fst rs) = mset (map fst rs')" using assms(1) by simp
  then show ?thesis using assms(2) by (metis mset_eq_imp_distinct_iff)
qed

lemma map_of_perm:
  assumes "mset rs = mset rs'" "distinct (map fst rs)"
  shows "map_of rs = map_of rs'"
proof -
  have "set rs = set rs'" using assms(1) by (rule mset_eq_setD)
  then show ?thesis
    using map_of_inject_set [of rs rs'] assms distinct_keys_perm [OF assms] by simp
qed

lemma dict_get_perm:
  "mset rs = mset rs' \<Longrightarrow> distinct (map fst rs) \<Longrightarrow> dict_get rs k = dict_get rs' k"
  by (simp add: dict_get_def map_of_perm)

lemma matches_char:
  "matches ops rs i x =
     (if \<exists>p \<in> set rs. length (snd p) \<le> i then Inl (IndexError ''tuple index out of range'')
      else Inr (map fst (filter (\<lambda>p. values_equal ops (snd p ! i) x) rs)))"
proof (induction rs)
  case Nil
  show ?case by simp
next
  case (Cons p rs)
  obtain n v where p: "p = (n, v)" by (cases p)
  show ?case
  proof (cases "\<exists>q \<in> set rs. length (snd q) \<le> i")
    case True
    then show ?thesis using Cons.IH by (simp add: p tuple_index_def)
  next
    case False
    then show ?thesis using Cons.IH by (simp add: p tuple_index_def)
  qed
qed

lemma matches_perm:
  assumes "mset rs = mset rs'"
  shows "map_sum id sort (matches ops rs i x) = map_sum id sort (matches ops rs' i x)"
proof -
  have s: "set rs = set rs'" using assms by (rule mset_eq_setD)
  have "mset (map fst (filter (\<lambda>p. values_equal ops (snd p ! i) x) rs))
      = mset (map fst (filter (\<lambda>p. values_equal ops (snd p ! i) x) rs'))"
    using assms by simp
  then have "sort (map fst (filter (\<lambda>p. values_equal ops (snd p ! i) x) rs))
      = sort (map fst (filter (\<lambda>p. values_equal ops (snd p ! i) x) rs'))"
    by (rule sort_cong_mset)
  then show ?thesis by (simp add: matches_char s)
qed

lemma miscompare_sorted:
  "miscompare ops rs ab i r v =
     (case map_sum id sort (matches ops rs i r) of
        Inl e \<Rightarrow> e
      | Inr rm \<Rightarrow>
     (case map_sum id sort (matches ops rs i v) of
        Inl e \<Rightarrow> e
      | Inr vm \<Rightarrow>
     (case (if truthy ab
            then (case list_index (the ab) i of
                    Inl e \<Rightarrow> Inl e
                  | Inr a \<Rightarrow> Inr (join ''; '' (map (to_ir_str ops) a)))
            else Inr ''(args unknown)'') of
        Inl e \<Rightarrow> e
      | Inr args \<Rightarrow>
          SampleError
            (''Result miscompare for sample '' @ str_nat i @ '':''
             @ [CHR 0x0A] @ ''args: '' @ args
             @ [CHR 0x0A] @ join '', '' rm @ '' =''
             @ [CHR 0x0A] @ ''   '' @ to_ir_str ops r
             @ [CHR 0x0A] @ join '', '' vm @ '' =''
             @ [CHR 0x0A] @ ''   '' @ to_ir_str ops v)
            False)))"
  unfolding miscompare_def by (simp split: sum.splits)

lemma miscompare_perm:
  "mset rs = mset rs' \<Longrightarrow> miscompare ops rs ab i r v = miscompare ops rs' ab i r v"
  unfolding miscompare_sorted by (simp only: matches_perm [of rs rs'])

lemma compare_values_perm:
  "mset rs = mset rs' \<Longrightarrow>
   compare_values ops rs ab rv vs is = compare_values ops rs' ab rv vs is"
  by (induction "is") (simp_all add: miscompare_perm [of rs rs'] split: sum.splits)

lemma compare_stages_perm:
  assumes "mset rs = mset rs'" "distinct (map fst rs)"
  shows "compare_stages ops rs ab r names = compare_stages ops rs' ab r names"
proof (induction names arbitrary: r)
  case Nil
  show ?case by simp
next
  case (Cons name names)
  show ?case
    by (simp add: dict_get_perm [OF assms] compare_values_perm [OF assms(1)] Cons.IH
        split: sum.splits option.splits)
qed

lemma compare_stages_proc_perm:
  assumes "mset rs = mset rs'" "distinct (map fst rs)"
  shows "compare_stages_proc ops rs r ref names = compare_stages_proc ops rs' r ref names"
  by (induction names) (simp_all add: dict_get_perm [OF assms] split: sum.splits)

lemma compare_results_proc_perm:
  assumes "mset rs = mset rs'" "distinct (map fst rs)"
  shows "compare_results_proc ops rs = compare_results_proc ops rs'"
proof -
  have e: "rs = [] \<longleftrightarrow> rs' = []" using assms(1) by (metis mset_zero_iff)
  show ?thesis
    unfolding compare_results_proc_def
    by (simp add: e sort_keys_perm [OF assms(1)] dict_get_perm [OF assms]
        compare_stages_proc_perm [OF assms] split: list.splits sum.splits)
qed

subsection \<open>Empty result sets\<close>

text \<open>
  C8. An empty result set compares successfully, in function mode (with or
  without arguments) and in proc mode: both methods return before they sort
  a name or compare a value.
\<close>

theorem compare_results_empty:
  "compare_results_function ops [] args_batch = Inr ()
   \<and> compare_results_proc ops [] = Inr ()"
  by (simp add: compare_results_function_def compare_results_proc_def)

subsection \<open>The loops, one stage after the other\<close>

lemma sort_Cons_least:
  assumes "sort xs = r # ss"
  shows "(\<forall>n \<in> set xs. r \<le> n) \<and> r \<in> set xs \<and> sorted ss"
proof -
  have s: "sorted (r # ss)" using assms sorted_sort [of xs] by simp
  have m: "set (r # ss) = set xs" using assms set_sort [of "\<lambda>x. x" xs] by metis
  show ?thesis using s m by auto
qed

lemma sort_nonempty: "xs \<noteq> [] \<Longrightarrow> \<exists>r ss. sort xs = r # ss"
  by (metis length_sort length_0_conv neq_Nil_conv)

lemma dict_get_key:
  "k \<in> set (map fst d) \<Longrightarrow> \<exists>v. dict_get d k = Inr v"
  by (cases "map_of d k") (auto simp: dict_get_def map_of_eq_None_iff)



lemma compare_stages_proc_append:
  "compare_stages_proc ops rs r ref (xs @ ys) =
     (case compare_stages_proc ops rs r ref xs of
        Inl e \<Rightarrow> Inl e
      | Inr u \<Rightarrow> compare_stages_proc ops rs r ref ys)"
  by (induction xs) (simp_all split: sum.splits)

lemma compare_channels_append:
  "compare_channels ops r n cand (xs @ ys) =
     (case compare_channels ops r n cand xs of
        Inl e \<Rightarrow> Inl e
      | Inr u \<Rightarrow> compare_channels ops r n cand ys)"
  by (induction xs) (auto split: sum.splits option.splits)

subsection \<open>Sequences of different lengths (function mode)\<close>




subsection \<open>A channel that a candidate stage lacks (proc mode)\<close>

text \<open>
  C5, as the code has it. In proc mode, let the comparison come to a
  candidate stage (every stage before it, in sorted order, compared equal to
  the reference) that lacks a channel \<open>c\<close> of the reference. If the candidate
  has not as many channels as the reference, the check of the channel counts,
  which stands first, raises its SampleError: it names both stages, both
  counts and the channel names of both. If the candidate has as many channels
  as the reference, and the channels that the reference holds before \<open>c\<close>
  compare equal, the comparison raises the SampleError that names \<open>c\<close>, the
  reference and the candidate. The channels after \<open>c\<close> are not looked at:
  they may match perfectly or not at all.
\<close>

theorem missing_channel_raises:
  assumes sorted_names: "sort (map fst results) = reference # earlier @ name # later"
    and ref_channels: "dict_get results reference = Inr (before @ (c, vs) # after)"
    and cand_channels: "dict_get results name = Inr all_channel_values"
    and earlier_equal:
      "compare_stages_proc ops results reference (before @ (c, vs) # after) earlier = Inr ()"
    and before_equal:
      "length (before @ (c, vs) # after) = length all_channel_values \<Longrightarrow>
       compare_channels ops reference name all_channel_values before = Inr ()"
    and missing: "map_of all_channel_values c = None"
  shows "compare_results_proc ops results =
           Inl (SampleError
             (if length (before @ (c, vs) # after) \<noteq> length all_channel_values
              then ''Results for '' @ reference @ '' has ''
                   @ str_nat (length (before @ (c, vs) # after)) @ ''  channels, '' @ name
                   @ '' has '' @ str_nat (length all_channel_values) @ '' channels. ''
                   @ ''The IR channel names in '' @ reference @ '' are: ''
                   @ repr_str_list ops (map fst (before @ (c, vs) # after)) @ ''.''
                   @ ''The IR channel names in '' @ name @ '' are: ''
                   @ repr_str_list ops (map fst all_channel_values) @ ''.''
              else ''A channel named '' @ c @ '' is present in '' @ reference
                   @ '', but it is not present in '' @ name @ ''.'')
             False)"
proof -
  let ?ref = "before @ (c, vs) # after"
  have ne: "results \<noteq> []" using sorted_names by auto
  have "compare_results_proc ops results =
          compare_stages_proc ops results reference ?ref (earlier @ name # later)"
    using ne sorted_names ref_channels by (simp add: compare_results_proc_def)
  also have "\<dots> = compare_stages_proc ops results reference ?ref (name # later)"
    by (simp add: compare_stages_proc_append earlier_equal)
  finally have reach: "compare_results_proc ops results =
          compare_stages_proc ops results reference ?ref (name # later)" .
  show ?thesis
  proof (cases "length ?ref = length all_channel_values")
    case True
    have "compare_stages_proc ops results reference ?ref (name # later)
        = Inl (SampleError (missing_channel_message c reference name) False)"
      using cand_channels True before_equal [OF True] missing
      by (simp add: compare_channels_append)
    then show ?thesis using reach True by (simp add: missing_channel_message_def)
  next
    case False
    have "compare_stages_proc ops results reference ?ref (name # later)
        = Inl (SampleError (channel_count_message ops reference ?ref name all_channel_values)
                 False)"
      using cand_channels False by simp
    then show ?thesis using reach False by (simp add: channel_count_message_def)
  qed
qed

text \<open>
  An example: the simulation names its output channel \<open>result\<close>, the three
  other stages name it \<open>out\<close>; channel \<open>in\<close> matches everywhere.
\<close>

theorem missing_channel_raises_witness:
  "compare_results_proc Value_ops
     [(''interpreted DSLX'', [(''in'', [SBits 8 5]), (''out'', [SBits 8 7])]),
      (''evaluated unopt IR (interpreter)'', [(''in'', [UBits 8 5]), (''out'', [UBits 8 7])]),
      (''evaluated unopt IR (JIT)'', [(''in'', [UBits 8 5]), (''out'', [UBits 8 7])]),
      (''simulated'', [(''in'', [UBits 8 5]), (''result'', [UBits 8 7])])]
   = Inl (SampleError
       ''A channel named out is present in evaluated unopt IR (JIT), but it is not present in simulated.'' False)"
proof -
  have "compare_results_proc Value_ops
     [(''interpreted DSLX'', [(''in'', [SBits 8 5]), (''out'', [SBits 8 7])]),
      (''evaluated unopt IR (interpreter)'', [(''in'', [UBits 8 5]), (''out'', [UBits 8 7])]),
      (''evaluated unopt IR (JIT)'', [(''in'', [UBits 8 5]), (''out'', [UBits 8 7])]),
      (''simulated'', [(''in'', [UBits 8 5]), (''result'', [UBits 8 7])])]
   = Inl (SampleError
       (if length ([(''in'', [UBits 8 5])] @ (''out'', [UBits 8 7]) # [])
             \<noteq> length [(''in'', [UBits 8 5]), (''result'', [UBits 8 7])]
        then ''Results for '' @ ''evaluated unopt IR (JIT)'' @ '' has ''
             @ str_nat (length ([(''in'', [UBits 8 5])] @ (''out'', [UBits 8 7]) # []))
             @ ''  channels, '' @ ''simulated''
             @ '' has '' @ str_nat (length [(''in'', [UBits 8 5]), (''result'', [UBits 8 7])])
             @ '' channels. ''
             @ ''The IR channel names in '' @ ''evaluated unopt IR (JIT)'' @ '' are: ''
             @ repr_str_list Value_ops
                 (map fst ([(''in'', [UBits 8 5])] @ (''out'', [UBits 8 7]) # [])) @ ''.''
             @ ''The IR channel names in '' @ ''simulated'' @ '' are: ''
             @ repr_str_list Value_ops
                 (map fst [(''in'', [UBits 8 5]), (''result'', [UBits 8 7])]) @ ''.''
        else ''A channel named '' @ ''out'' @ '' is present in '' @ ''evaluated unopt IR (JIT)''
             @ '', but it is not present in '' @ ''simulated'' @ ''.'')
       False)"
    by (rule missing_channel_raises
          [where earlier = "[''evaluated unopt IR (interpreter)'', ''interpreted DSLX'']"
             and later = "[]" and before = "[(''in'', [UBits 8 5])]" and after = "[]"
             and vs = "[UBits 8 7]"
             and all_channel_values = "[(''in'', [UBits 8 5]), (''result'', [UBits 8 7])]"])
       (simp_all add: dict_get_def list_index_def Value_ops_def value_eq_def)
  then show ?thesis by simp
qed

text \<open>
  C5 as stated fails: it says that a channel of the reference that a
  candidate lacks always ends in the error that names that channel. In the
  first run below the interpreted DSLX has channel \<open>in\<close> only: the check of
  the channel counts raises first, and its error lists the channels of both
  stages without saying which one is missing. In the second run the
  interpreted DSLX has two channels, \<open>in\<close> and \<open>result\<close>, and lacks \<open>out\<close>;
  channel \<open>in\<close>, which comes first, differs in its value: the comparison ends
  with the error for channel \<open>in\<close>, and channel \<open>out\<close> is not mentioned.
\<close>

theorem missing_channel_not_reported:
  "compare_results_proc Value_ops
     [(''evaluated unopt IR (interpreter)'', [(''in'', [UBits 8 5]), (''out'', [UBits 8 7])]),
      (''interpreted DSLX'', [(''in'', [SBits 8 5])])]
   = Inl (SampleError
       (''Results for evaluated unopt IR (interpreter) has 2  channels, ''
        @ ''interpreted DSLX has 1 channels. ''
        @ ''The IR channel names in evaluated unopt IR (interpreter) are: ''
        @ ''['' @ [CHR 0x27] @ ''in'' @ [CHR 0x27] @ '', '' @ [CHR 0x27] @ ''out'' @ [CHR 0x27]
        @ ''].''
        @ ''The IR channel names in interpreted DSLX are: ''
        @ ''['' @ [CHR 0x27] @ ''in'' @ [CHR 0x27] @ ''].'')
       False)
   \<and> compare_results_proc Value_ops
     [(''evaluated unopt IR (interpreter)'', [(''in'', [UBits 8 5]), (''out'', [UBits 8 7])]),
      (''interpreted DSLX'', [(''in'', [SBits 8 6]), (''result'', [SBits 8 7])])]
   = Inl (SampleError
       (''In evaluated unopt IR (interpreter), at position 0 channel ''
        @ [CHR 0x27] @ ''in'' @ [CHR 0x27] @ '' has value bits[8]:0x5. ''
        @ ''However, in interpreted DSLX, the value is bits[8]:0x6.'')
       False)"
  by (simp add: compare_results_proc_def dict_get_def list_index_def Value_ops_def value_eq_def
      channel_count_message_def channel_value_message_def repr_names_def str_nat.simps
      hex_nat.simps)

subsection \<open>The assertion on the length of the batch (function mode)\<close>

lemma matches_error:
  "matches ops rs i x = Inl e \<Longrightarrow> e = IndexError ''tuple index out of range''"
  by (simp add: matches_char split: if_splits)

lemma miscompare_not_assertion: "miscompare ops rs ab i r v \<noteq> AssertionError"
  unfolding miscompare_def
  by (auto simp: list_index_def dest: matches_error split: sum.splits if_splits)

lemma compare_values_not_assertion:
  "compare_values ops rs ab rv vs is \<noteq> Inl AssertionError"
  by (induction "is")
     (auto simp: tuple_index_def miscompare_not_assertion split: sum.splits if_splits)

lemma compare_stages_not_assertion:
  "compare_stages ops rs ab r names \<noteq> Inl AssertionError"
proof (induction names arbitrary: r)
  case Nil
  show ?case by simp
next
  case (Cons name names)
  show ?case
    using Cons.IH compare_values_not_assertion [of ops rs ab]
    by (auto simp: dict_get_def split: sum.splits option.splits if_splits)
qed

text \<open>
  C4, as the code has it. The assertion reads one stage, the first one
  inserted (\<open>next(iter(results.values()))\<close>): the comparison ends in an
  AssertionError exactly when the result set is not empty, the batch is
  supplied and not empty, and the first-inserted stage has not as many
  values as the batch has entries. So the assertion does not fail when every
  stage is as long as the batch. A stage other than the first-inserted one is
  not asserted: if its length differs, that is left to the comparison loop.
\<close>

theorem batch_length_assertion:
  "(compare_results_function ops results args_batch = Inl AssertionError
      \<longleftrightarrow> results \<noteq> [] \<and> truthy args_batch
          \<and> length (snd (hd results)) \<noteq> length (the args_batch))
   \<and> ((\<forall>p \<in> set results. length (snd p) = length (the args_batch))
        \<longrightarrow> compare_results_function ops results args_batch \<noteq> Inl AssertionError)"
proof -
  have a: "compare_results_function ops results args_batch = Inl AssertionError
      \<longleftrightarrow> results \<noteq> [] \<and> truthy args_batch
          \<and> length (snd (hd results)) \<noteq> length (the args_batch)"
    by (simp add: compare_results_function_def compare_stages_not_assertion)
  have "results \<noteq> [] \<Longrightarrow> hd results \<in> set results" by simp
  with a show ?thesis by blast
qed

text \<open>
  Two examples with a batch of two entries: the first-inserted stage has one
  value and the assertion fails; every stage has two values and it does not.
\<close>

theorem batch_length_assertion_witness:
  "compare_results_function Value_ops
     [(''evaluated unopt IR (interpreter)'', [UBits 8 5]),
      (''evaluated unopt IR (JIT)'', [UBits 8 5, UBits 8 5])]
     (Some [[UBits 8 1], [UBits 8 2]])
   = Inl AssertionError
   \<and> compare_results_function Value_ops
     [(''evaluated unopt IR (interpreter)'', [UBits 8 5, UBits 8 6]),
      (''evaluated unopt IR (JIT)'', [UBits 8 5, UBits 8 6])]
     (Some [[UBits 8 1], [UBits 8 2]])
   \<noteq> Inl AssertionError"
  using batch_length_assertion [of Value_ops
     "[(''evaluated unopt IR (interpreter)'', [UBits 8 5]),
       (''evaluated unopt IR (JIT)'', [UBits 8 5, UBits 8 5])]"
     "Some [[UBits 8 1], [UBits 8 2]]"]
   batch_length_assertion [of Value_ops
     "[(''evaluated unopt IR (interpreter)'', [UBits 8 5, UBits 8 6]),
       (''evaluated unopt IR (JIT)'', [UBits 8 5, UBits 8 6])]"
     "Some [[UBits 8 1], [UBits 8 2]]"]
  by (simp add: truthy_def)

text \<open>
  C4 as stated fails: it says the length of every stage is asserted, not
  reported gracefully. Here the batch has one entry, the first-inserted stage
  has one value and the second stage has two: no assertion fails, and the
  second stage's length is reported by the SampleError of the length check.
\<close>

theorem assertion_first_stage_only:
  "compare_results_function Value_ops
     [(''evaluated unopt IR (interpreter)'', [UBits 8 5]),
      (''evaluated unopt IR (JIT)'', [UBits 8 5, UBits 8 5])]
     (Some [[UBits 8 1]])
   = Inl (SampleError
       ''Results for evaluated unopt IR (JIT) has 2 values, evaluated unopt IR (interpreter) has 1''
       False)"
  by (simp add: compare_results_function_def truthy_def dict_get_def tuple_index_def
      length_message_def str_nat.simps)

subsection \<open>The diagnostic of a mismatch (function mode)\<close>

text \<open>
  C2. At the first mismatch the code means to put every stage into the group
  of the reference's value or of the candidate's value and to raise the
  diagnostic. To do so it reads \<open>v[i]\<close> of every stage, also of stages whose
  length it has not checked yet. Here the optimized and the unoptimized
  evaluation differ at index 1 and the simulation, which comes later in
  sorted order, returned one value only: the comparison ends in an
  IndexError and the diagnostic is never built.
\<close>

theorem miscompare_short_stage:
  "compare_results_function Value_ops
     [(''evaluated unopt IR (interpreter)'', [UBits 8 5, UBits 8 6]),
      (''evaluated opt IR (interpreter)'', [UBits 8 5, UBits 8 5]),
      (''simulated'', [UBits 8 5])]
     (Some [[UBits 8 1], [UBits 8 2]])
   = Inl (IndexError ''tuple index out of range'')"
  by (simp add: compare_results_function_def truthy_def dict_get_def tuple_index_def
      miscompare_def Value_ops_def value_eq_def)

text \<open>
  When every stage has a value at the index and the batch, if there is one,
  has an entry there, the diagnostic is built as C2 says: the index, the
  arguments in canonical form or the placeholder, and the two groups, each
  computed on its own from all the stages and sorted, each with its value.
\<close>

lemma miscompare_diagnostic:
  assumes "\<forall>p \<in> set results. i < length (snd p)"
    and "truthy args_batch \<Longrightarrow> i < length (the args_batch)"
  shows "miscompare ops results args_batch i ref_result value =
           SampleError
            (''Result miscompare for sample '' @ str_nat i @ '':''
             @ [CHR 0x0A] @ ''args: ''
             @ (if truthy args_batch
                then join ''; '' (map (to_ir_str ops) (the args_batch ! i))
                else ''(args unknown)'')
             @ [CHR 0x0A]
             @ join '', '' (sort (map fst
                 (filter (\<lambda>p. values_equal ops (snd p ! i) ref_result) results))) @ '' =''
             @ [CHR 0x0A] @ ''   '' @ to_ir_str ops ref_result
             @ [CHR 0x0A]
             @ join '', '' (sort (map fst
                 (filter (\<lambda>p. values_equal ops (snd p ! i) value) results))) @ '' =''
             @ [CHR 0x0A] @ ''   '' @ to_ir_str ops value)
            False"
proof -
  have n: "\<not> (\<exists>p \<in> set results. length (snd p) \<le> i)" using assms(1) by auto
  show ?thesis
    unfolding miscompare_def using n assms(2)
    by (simp add: matches_char list_index_def)
qed

subsection \<open>The reference, and the order of insertion\<close>

text \<open>
  C1, as the code has it. For a result set that is not empty, the sorted
  names are a least name, the reference, and the other names in ascending
  order. In function mode the comparison first asserts the length of the
  batch on the first-inserted stage; when that passes (or no batch is
  supplied), the comparison is the loop over the other names, in that order,
  against that reference. In proc mode the comparison is the loop over the
  other names, in that order, against the channels of that reference. In
  proc mode the outcome is the same for any two insertion orders of the same
  stages. In function mode it is the same when no batch is supplied (or an
  empty one), and with a batch when the first-inserted stage of the one order
  is as long as that of the other: the assertion on the batch length reads
  the first-inserted stage and nothing else of the comparison reads the
  order.
\<close>

theorem comparison_order:
  fixes rs rs' :: "(string \<times> 'v list) list"
    and ps ps' :: "(string \<times> 'v channel_values) list"
  assumes "rs \<noteq> []" "distinct (map fst rs)" "mset rs' = mset rs"
    and "truthy args_batch \<Longrightarrow> length (snd (hd rs')) = length (snd (hd rs))"
    and "ps \<noteq> []" "distinct (map fst ps)" "mset ps' = mset ps"
  shows "(\<exists>reference stages.
            sort (map fst rs) = reference # stages
            \<and> (\<forall>n \<in> set (map fst rs). reference \<le> n) \<and> sorted stages
            \<and> compare_results_function ops rs args_batch
                = (if truthy args_batch \<and> length (snd (hd rs)) \<noteq> length (the args_batch)
                   then Inl AssertionError
                   else compare_stages ops rs args_batch (Some reference) stages))
         \<and> compare_results_function ops rs' args_batch
             = compare_results_function ops rs args_batch
         \<and> (\<exists>reference stages all_channel_values_ref.
            sort (map fst ps) = reference # stages
            \<and> (\<forall>n \<in> set (map fst ps). reference \<le> n) \<and> sorted stages
            \<and> dict_get ps reference = Inr all_channel_values_ref
            \<and> compare_results_proc ops ps
                = compare_stages_proc ops ps reference all_channel_values_ref stages)
         \<and> compare_results_proc ops ps' = compare_results_proc ops ps"
proof -
  obtain r ss where s: "sort (map fst rs) = r # ss"
    using sort_nonempty [of "map fst rs"] assms(1) by auto
  have l: "(\<forall>n \<in> set (map fst rs). r \<le> n) \<and> r \<in> set (map fst rs) \<and> sorted ss"
    using s by (rule sort_Cons_least)
  obtain v where v: "dict_get rs r = Inr v" using l dict_get_key [of r rs] by auto
  have f1: "compare_results_function ops rs args_batch
                = (if truthy args_batch \<and> length (snd (hd rs)) \<noteq> length (the args_batch)
                   then Inl AssertionError
                   else compare_stages ops rs args_batch (Some r) ss)"
    using s v assms(1) by (simp add: compare_results_function_def)
  have d': "distinct (map fst rs')" using distinct_keys_perm [of rs rs'] assms(2,3) by simp
  have e: "rs' \<noteq> []" using assms(1,3) by (metis mset_zero_iff)
  have f2: "compare_results_function ops rs' args_batch
             = compare_results_function ops rs args_batch"
    using assms(1,4) e sort_keys_perm [of rs' rs] compare_stages_perm [of rs' rs ops args_batch] assms(3) d'
    by (auto simp: compare_results_function_def)
  obtain q qs where t: "sort (map fst ps) = q # qs"
    using sort_nonempty [of "map fst ps"] assms(5) by auto
  have m: "(\<forall>n \<in> set (map fst ps). q \<le> n) \<and> q \<in> set (map fst ps) \<and> sorted qs"
    using t by (rule sort_Cons_least)
  obtain w where w: "dict_get ps q = Inr w" using m dict_get_key [of q ps] by auto
  have p1: "compare_results_proc ops ps = compare_stages_proc ops ps q w qs"
    using assms(5) t w by (simp add: compare_results_proc_def)
  have pd': "distinct (map fst ps')" using distinct_keys_perm [of ps ps'] assms(6,7) by simp
  have p2: "compare_results_proc ops ps' = compare_results_proc ops ps"
    using compare_results_proc_perm [of ps' ps ops] assms(7) pd' by simp
  show ?thesis using s l f1 f2 t m w p1 p2 by blast
qed

text \<open>
  An example in each mode: two stages that differ in their value, inserted
  in either order.
\<close>

theorem comparison_order_witness:
  "compare_results_function Value_ops
     [(''evaluated unopt IR (interpreter)'', [UBits 8 5]), (''interpreted DSLX'', [SBits 8 6])]
     (Some [[UBits 8 1]])
   = compare_results_function Value_ops
     [(''interpreted DSLX'', [SBits 8 6]), (''evaluated unopt IR (interpreter)'', [UBits 8 5])]
     (Some [[UBits 8 1]])
   \<and> compare_results_proc Value_ops
     [(''evaluated unopt IR (interpreter)'', [(''out'', [UBits 8 5])]),
      (''interpreted DSLX'', [(''out'', [SBits 8 6])])]
   = compare_results_proc Value_ops
     [(''interpreted DSLX'', [(''out'', [SBits 8 6])]),
      (''evaluated unopt IR (interpreter)'', [(''out'', [UBits 8 5])])]"
  using comparison_order
    [of "[(''interpreted DSLX'', [SBits 8 6]), (''evaluated unopt IR (interpreter)'', [UBits 8 5])]"
        "[(''evaluated unopt IR (interpreter)'', [UBits 8 5]), (''interpreted DSLX'', [SBits 8 6])]"
        "Some [[UBits 8 1]]"
        "[(''interpreted DSLX'', [(''out'', [SBits 8 6])]),
          (''evaluated unopt IR (interpreter)'', [(''out'', [UBits 8 5])])]"
        "[(''evaluated unopt IR (interpreter)'', [(''out'', [UBits 8 5])]),
          (''interpreted DSLX'', [(''out'', [SBits 8 6])])]"
        Value_ops]
  by simp

text \<open>
  C1 as stated fails in function mode: with a batch of one entry, a stage of
  one value and a stage of two, the outcome is the SampleError of the length
  check when the short stage was inserted first, and an AssertionError when
  the long one was.
\<close>

theorem insertion_order_matters:
  "compare_results_function Value_ops
     [(''interpreted DSLX'', [SBits 8 5]),
      (''evaluated unopt IR (interpreter)'', [UBits 8 5, UBits 8 5])]
     (Some [[UBits 8 1]])
   = Inl (SampleError
       ''Results for evaluated unopt IR (interpreter) has 2 values, interpreted DSLX has 1''
       False)
   \<and> compare_results_function Value_ops
     [(''evaluated unopt IR (interpreter)'', [UBits 8 5, UBits 8 5]),
      (''interpreted DSLX'', [SBits 8 5])]
     (Some [[UBits 8 1]])
   = Inl AssertionError"
  by (simp add: compare_results_function_def truthy_def dict_get_def tuple_index_def
      length_message_def str_nat.simps)

subsection \<open>Actions, and what the stages log\<close>

lemma andthen_returns [simp]: "andthen (returns x) f = f x"
  by (rule ext) (simp add: andthen_def returns_def)

lemma andthen_raises [simp]: "andthen (raises e) f = raises e"
  by (rule ext) (simp add: andthen_def raises_def)

lemma andthen_Inr: "m s = (Inr x, s1) \<Longrightarrow> andthen m f s = f x s1"
  by (simp add: andthen_def)

lemma andthen_Inl: "m s = (Inl e, s1) \<Longrightarrow> andthen m f s = (Inl e, s1)"
  by (simp add: andthen_def)

lemma andthen_cases:
  "(\<exists>e. fst (m s) = Inl e \<and> andthen m f s = m s \<and> andthen m f s = (Inl e, snd (m s)))
   \<or> (\<exists>x. m s = (Inr x, snd (m s)) \<and> andthen m f s = f x (snd (m s)))"
  by (cases "m s"; cases "fst (m s)") (auto simp: andthen_def)

lemma only_logs_returns: "only_logs P (returns x)"
  by (simp add: only_logs_def returns_def)

lemma only_logs_raises: "only_logs P (raises e)"
  by (simp add: only_logs_def raises_def)

lemma only_logs_lift: "only_logs P (lift r)"
  by (simp add: only_logs_def lift_def)

lemma only_logs_write_file: "only_logs P (write_file f c)"
  by (simp add: only_logs_def write_file_def)

lemma only_logs_read_file: "only_logs P (read_file f)"
  by (simp add: only_logs_def read_file_def split: option.splits)

lemma only_logs_log: "P ev \<Longrightarrow> only_logs P (log ev)"
  by (simp add: only_logs_def log_def)

lemma only_logs_andthen:
  assumes "only_logs P m" "\<And>x. only_logs P (f x)"
  shows "only_logs P (andthen m f)"
  unfolding only_logs_def
proof
  fix s
  obtain evs where m: "events (snd (m s)) = events s @ evs" "\<forall>ev \<in> set evs. P ev"
    using assms(1) unfolding only_logs_def by blast
  show "\<exists>evs. events (snd (andthen m f s)) = events s @ evs \<and> (\<forall>ev \<in> set evs. P ev)"
  proof (cases "m s")
    case (Pair r s1)
    show ?thesis
    proof (cases r)
      case (Inl e)
      then show ?thesis using Pair m by (auto simp: andthen_def)
    next
      case (Inr x)
      obtain evs' where f: "events (snd (f x s1)) = events s1 @ evs'" "\<forall>ev \<in> set evs'. P ev"
        using assms(2) [of x] unfolding only_logs_def by blast
      have "events (snd (andthen m f s)) = events s @ (evs @ evs')"
        using Pair Inr m f by (simp add: andthen_def)
      moreover have "\<forall>ev \<in> set (evs @ evs'). P ev" using m f by auto
      ultimately show ?thesis by blast
    qed
  qed
qed

lemma only_logs_if:
  "(c \<Longrightarrow> only_logs P m) \<Longrightarrow> (\<not> c \<Longrightarrow> only_logs P n) \<Longrightarrow> only_logs P (if c then m else n)"
  by simp

lemma only_logs_run_command:
  "(\<And>cmd. P (Subprocess cmd)) \<Longrightarrow> only_logs P (run_command env desc args options)"
  unfolding only_logs_def run_command_def
  by (auto simp: Let_def split: list.splits completed.splits)

lemmas only_logs_intros =
  only_logs_returns only_logs_raises only_logs_lift only_logs_write_file only_logs_read_file
  only_logs_andthen only_logs_if only_logs_run_command only_logs_log

lemma only_logs_evaluate_ir_function:
  "(\<And>cmd. P (Subprocess cmd)) \<Longrightarrow> P (Evaluate_ir ir jit) \<Longrightarrow>
   only_logs P (evaluate_ir_function env ir args jit options)"
  unfolding evaluate_ir_function_def by (intro only_logs_intros) simp_all

lemma only_logs_case_option:
  "(x = None \<Longrightarrow> only_logs P m) \<Longrightarrow> (\<And>y. x = Some y \<Longrightarrow> only_logs P (f y))
   \<Longrightarrow> only_logs P (case x of None \<Rightarrow> m | Some y \<Rightarrow> f y)"
  by (cases x) simp_all

lemma only_logs_evaluate_ir_proc:
  "(\<And>cmd. P (Subprocess cmd)) \<Longrightarrow> P (Evaluate_ir ir jit) \<Longrightarrow>
   only_logs P (evaluate_ir_proc env ir ab names jit options)"
  unfolding evaluate_ir_proc_def
  by (intro only_logs_intros only_logs_case_option) simp_all

lemma only_logs_interpret_dslx_function:
  "P Interpret_dslx \<Longrightarrow> only_logs P (interpret_dslx_function env txt tname ab)"
  unfolding interpret_dslx_function_def by (intro only_logs_intros) simp_all

lemma only_logs_interpret_dslx_proc:
  "P Interpret_dslx \<Longrightarrow> only_logs P (interpret_dslx_proc env txt tname ab init)"
  unfolding interpret_dslx_proc_def by (intro only_logs_intros) simp_all

lemma only_logs_dslx_to_ir_function:
  "(\<And>cmd. P (Subprocess cmd)) \<Longrightarrow> P Dslx_to_ir \<Longrightarrow>
   only_logs P (dslx_to_ir_function env f options)"
  unfolding dslx_to_ir_function_def by (intro only_logs_intros) simp_all

lemma only_logs_dslx_to_ir_proc:
  "(\<And>cmd. P (Subprocess cmd)) \<Longrightarrow> P Dslx_to_ir \<Longrightarrow>
   only_logs P (dslx_to_ir_proc env f init options)"
  unfolding dslx_to_ir_proc_def by (intro only_logs_intros only_logs_case_option) simp_all

lemma only_logs_optimize_ir_method:
  "(\<And>cmd. P (Subprocess cmd)) \<Longrightarrow> P (Optimize_ir f) \<Longrightarrow>
   only_logs P (optimize_ir_method env f options)"
  unfolding optimize_ir_method_def by (intro only_logs_intros) simp_all

lemma only_logs_codegen_method:
  "(\<And>cmd. P (Subprocess cmd)) \<Longrightarrow> P (Codegen f) \<Longrightarrow>
   only_logs P (codegen_method env f cg options)"
  unfolding codegen_method_def by (intro only_logs_intros) simp_all

lemma only_logs_simulate_function:
  "(\<And>cmd. P (Subprocess cmd)) \<Longrightarrow> P (Simulate f) \<Longrightarrow>
   only_logs P (simulate_function env f sig args options)"
  unfolding simulate_function_def by (intro only_logs_intros) simp_all

lemma only_logs_simulate_proc: "only_logs P simulate_proc"
  unfolding simulate_proc_def by (rule only_logs_raises)

lemma only_logs_read_optional: "only_logs P (read_optional parse filename)"
  unfolding read_optional_def by (intro only_logs_intros)

lemmas only_logs_stage_intros =
  only_logs_read_optional
  only_logs_intros only_logs_case_option
  only_logs_evaluate_ir_function only_logs_evaluate_ir_proc
  only_logs_interpret_dslx_function only_logs_interpret_dslx_proc
  only_logs_dslx_to_ir_function only_logs_dslx_to_ir_proc
  only_logs_optimize_ir_method only_logs_codegen_method
  only_logs_simulate_function only_logs_simulate_proc

text \<open>A predicate on events that allows every stage, the JIT evaluations only under use_jit.\<close>

lemma only_logs_run_function_ir:
  assumes "\<And>ev. ev \<noteq> Compare_results \<Longrightarrow> (\<forall>f. ev \<noteq> Evaluate_ir f True) \<Longrightarrow> P ev"
    and "\<And>f. use_jit options \<Longrightarrow> P (Evaluate_ir f True)"
  shows "only_logs P (run_function_ir env options ir args results)"
  unfolding run_function_ir_def
  by (intro only_logs_stage_intros) (simp_all add: assms)

lemma only_logs_run_proc_ir:
  assumes "\<And>ev. ev \<noteq> Compare_results \<Longrightarrow> (\<forall>f. ev \<noteq> Evaluate_ir f True) \<Longrightarrow> P ev"
    and "\<And>f. use_jit options \<Longrightarrow> P (Evaluate_ir f True)"
  shows "only_logs P (run_proc_ir env options ir args ab names results)"
  unfolding run_proc_ir_def
  by (intro only_logs_stage_intros) (simp_all add: assms)

lemma only_logs_run_function_stages:
  assumes "\<And>ev. ev \<noteq> Compare_results \<Longrightarrow> P ev"
  shows "only_logs P (run_function_stages env input options args)"
  unfolding run_function_stages_def
  by (intro only_logs_stage_intros only_logs_run_function_ir) (simp_all add: assms)

lemma only_logs_run_proc_stages:
  assumes "\<And>ev. ev \<noteq> Compare_results \<Longrightarrow> P ev"
  shows "only_logs P (run_proc_stages env input options args chan init)"
  unfolding run_proc_stages_def
  by (intro only_logs_stage_intros only_logs_run_proc_ir) (simp_all add: assms)

subsection \<open>Failures of a stage\<close>

lemmas demo_run_defs = run_from_files_def run_sample_def run_function_def run_function_stages_def
  run_function_ir_def evaluate_ir_function_def optimize_ir_method_def codegen_method_def
  simulate_function_def dslx_to_ir_function_def interpret_dslx_function_def run_command_def
  andthen_def try_except_def returns_def raises_def lift_def log_def write_file_def read_file_def
  read_optional_def demo_env_def demo_options_def demo_runner_def tools_ok_def opt_times_out_def truthy_def
  exception_msg_def is_TimeoutExpired_def parse_values_def strip_def is_space_def basename_def
  IR_OPT_MAIN_PATH_def EVAL_IR_MAIN_PATH_def CODEGEN_MAIN_PATH_def SIMULATE_MODULE_MAIN_PATH_def
  IR_CONVERTER_MAIN_PATH_def Let_def

lemma stages_log_no_comparison:
  assumes "Compare_results \<notin> set (events s)"
  shows "Compare_results \<notin> set (events (snd (run_function_stages env input options args s)))"
    and "Compare_results \<notin> set (events (snd (run_proc_stages env input options args chan init s)))"
proof -
  have f: "only_logs (\<lambda>ev. ev \<noteq> Compare_results) (run_function_stages env input options args)"
    by (rule only_logs_run_function_stages)
  have p: "only_logs (\<lambda>ev. ev \<noteq> Compare_results)
             (run_proc_stages env input options args chan init)"
    by (rule only_logs_run_proc_stages)
  show "Compare_results \<notin> set (events (snd (run_function_stages env input options args s)))"
    using f assms unfolding only_logs_def by (metis Un_iff set_append)
  show "Compare_results \<notin> set (events (snd (run_proc_stages env input options args chan init s)))"
    using p assms unfolding only_logs_def by (metis Un_iff set_append)
qed

text \<open>
  C6. Let the options be read, and let the stages of the run (of a function
  or of a proc) end in a failure \<open>e\<close>, whatever it is: an exception of a tool
  that exits with an error, the expiry of a timeout, or any other exception
  raised inside a stage. Then \<open>run_from_files\<close> writes the text of \<open>e\<close> to
  \<open>exception.txt\<close> and only then raises, the caller gets one SampleError with
  that text, its flag \<open>is_timeout\<close> is true exactly when \<open>e\<close> is the
  TimeoutExpired of \<open>subprocess\<close>, and the results gathered before the failure
  were never compared: no comparison is among the events of the run.
\<close>

theorem failure_is_unified:
  assumes options_read: "files s json_options_filename = Some json"
      "options_from_json env json = Inr options"
    and not_compared_before: "Compare_results \<notin> set (events s)"
    and stage_fails:
      "(top_type options = TopType_function
          \<and> run_function_stages env input_filename options args_filename
               (s\<lparr>files := (files s)(''revision.txt'' \<mapsto> get_revision env)\<rparr>) = (Inl e, s1))
       \<or> (top_type options = TopType_proc
          \<and> run_proc_stages env input_filename options args_filename
               ir_channel_names_filename proc_init_values_filename
               (s\<lparr>files := (files s)(''revision.txt'' \<mapsto> get_revision env)\<rparr>) = (Inl e, s1))"
  shows "run_from_files env input_filename json_options_filename args_filename
           ir_channel_names_filename proc_init_values_filename s
         = (Inl (SampleError (exception_msg env e) (is_TimeoutExpired e)),
            s1\<lparr>files := (files s1)(''exception.txt'' \<mapsto> exception_msg env e)\<rparr>)
       \<and> Compare_results \<notin> set (events s1)
       \<and> (is_TimeoutExpired e \<longleftrightarrow> (\<exists>cmd. e = TimeoutExpired cmd))"
proof -
  let ?s0 = "s\<lparr>files := (files s)(''revision.txt'' \<mapsto> get_revision env)\<rparr>"
  have fresh: "Compare_results \<notin> set (events ?s0)" using not_compared_before by simp
  have sample: "run_sample env options input_filename args_filename ir_channel_names_filename
                  proc_init_values_filename ?s0 = (Inl e, s1)"
    using stage_fails
    by (auto simp: run_sample_def run_function_def run_proc_def andthen_Inl)
  have run: "run_from_files env input_filename json_options_filename args_filename
           ir_channel_names_filename proc_init_values_filename s
         = (Inl (SampleError (exception_msg env e) (is_TimeoutExpired e)),
            s1\<lparr>files := (files s1)(''exception.txt'' \<mapsto> exception_msg env e)\<rparr>)"
    using options_read sample
    by (simp add: run_from_files_def andthen_def read_file_def lift_def write_file_def
        try_except_def raises_def)
  have quiet: "Compare_results \<notin> set (events s1)"
    using stage_fails stages_log_no_comparison [OF fresh, of env input_filename options args_filename]
    by (metis snd_conv)
  have "is_TimeoutExpired e \<longleftrightarrow> (\<exists>cmd. e = TimeoutExpired cmd)"
    by (cases e) (simp_all add: is_TimeoutExpired_def)
  with run quiet show ?thesis by blast
qed

text \<open>
  An example: the optimizer runs into the timeout after the unoptimized IR
  was evaluated.
\<close>

theorem failure_is_unified_witness:
  "fst (run_from_files (demo_env opt_times_out demo_options) ''sample.ir'' ''options.json''
          (Some ''args.txt'') None None demo_runner)
     = Inl (SampleError ''tool failed'' True)
   \<and> files (snd (run_from_files (demo_env opt_times_out demo_options) ''sample.ir''
          ''options.json'' (Some ''args.txt'') None None demo_runner)) ''exception.txt''
     = Some ''tool failed''"
proof -
  let ?env = "demo_env opt_times_out demo_options"
  let ?s0 = "demo_runner\<lparr>files := (files demo_runner)(''revision.txt'' \<mapsto> get_revision ?env)\<rparr>"
  let ?e = "TimeoutExpired [''xls/tools/opt_main'', ''sample.ir'', ''--logtostderr'']"
  let ?m = "run_function_stages ?env ''sample.ir'' demo_options (Some ''args.txt'') ?s0"
  have "fst ?m = Inl ?e"
    by (simp add: demo_run_defs)
  then have stages: "?m = (Inl ?e, snd ?m)" by (metis prod.collapse)
  have "run_from_files ?env ''sample.ir'' ''options.json'' (Some ''args.txt'') None None
          demo_runner
        = (Inl (SampleError (exception_msg ?env ?e) (is_TimeoutExpired ?e)),
           (snd ?m)\<lparr>files := (files (snd ?m))(''exception.txt'' \<mapsto> exception_msg ?env ?e)\<rparr>)"
    using failure_is_unified [of demo_runner "''options.json''" "''{}''" ?env demo_options
        "''sample.ir''" "Some ''args.txt''" ?e "snd ?m" None None] stages
    by (simp add: demo_env_def demo_runner_def demo_options_def)
  then show ?thesis
    by (simp add: exception_msg_def is_TimeoutExpired_def demo_env_def)
qed

subsection \<open>The unoptimized IR is always interpreted\<close>

lemma andthen_assoc: "andthen (andthen m f) g = andthen m (\<lambda>x. andthen (f x) g)"
  by (rule ext) (simp add: andthen_def split: prod.splits sum.splits)

lemma andthen_events:
  assumes "\<And>x. only_logs P (k x)"
  shows "\<exists>evs. events (snd (andthen m k s)) = events (snd (m s)) @ evs \<and> (\<forall>ev \<in> set evs. P ev)"
proof (cases "m s")
  case (Pair r s1)
  show ?thesis
  proof (cases r)
    case (Inl e)
    then show ?thesis using Pair by (simp add: andthen_def)
  next
    case (Inr x)
    then show ?thesis
      using Pair assms [of x] unfolding only_logs_def by (simp add: andthen_def)
  qed
qed

lemma log_andthen_events:
  assumes "\<And>x. only_logs P (k x)"
  shows "\<exists>evs. events (snd (andthen (log ev) k s)) = events s @ ev # evs
           \<and> (\<forall>ev \<in> set evs. P ev)"
  using andthen_events [of P k "log ev" s, OF assms] by (simp add: log_def)

lemma run_command_events:
  "events (snd (run_command env desc (a # args) options s))
     = events s @ [Subprocess ((a # args)
          @ (if verbosity env > 0 then [''-v='' @ str_nat (verbosity env)] else [])
          @ [''--logtostderr''])]"
  by (simp add: run_command_def Let_def split: completed.splits)

lemma log_run_command_andthen_events:
  assumes "\<And>x. only_logs P (k x)"
  shows "\<exists>evs. events (snd (andthen (log ev) (\<lambda>u. andthen (run_command env desc (a # args) options) k) s))
           = events s @ ev # Subprocess ((a # args)
                @ (if verbosity env > 0 then [''-v='' @ str_nat (verbosity env)] else [])
                @ [''--logtostderr'']) # evs
           \<and> (\<forall>ev \<in> set evs. P ev)"
proof -
  let ?s1 = "s\<lparr>events := events s @ [ev]\<rparr>"
  have a: "andthen (log ev) (\<lambda>u. andthen (run_command env desc (a # args) options) k) s
         = andthen (run_command env desc (a # args) options) k ?s1"
    by (simp add: andthen_def log_def)
  obtain evs where
    "events (snd (andthen (run_command env desc (a # args) options) k ?s1))
       = events (snd (run_command env desc (a # args) options ?s1)) @ evs"
    "\<forall>ev \<in> set evs. P ev"
    using andthen_events [of P k "run_command env desc (a # args) options" ?s1, OF assms]
    by blast
  then show ?thesis using a by (simp add: run_command_events)
qed

lemma evaluate_ir_function_andthen_events:
  assumes "\<And>x. only_logs P (K x)"
  shows "\<exists>evs. events (snd (andthen (evaluate_ir_function env ir f jit options) K s))
           = events s @ Evaluate_ir ir jit
               # Subprocess ([EVAL_IR_MAIN_PATH, ''--input_file='' @ f,
                    if jit then ''--use_llvm_jit'' else ''--nouse_llvm_jit'', ir]
                   @ (if verbosity env > 0 then [''-v='' @ str_nat (verbosity env)] else [])
                   @ [''--logtostderr''])
               # evs
           \<and> (\<forall>ev \<in> set evs. P ev)"
proof -
  have k: "only_logs P (\<lambda>s. andthen (write_file (ir @ ''.results'') t)
             (\<lambda>u. andthen (lift (parse_values env t)) K) s)" for t
    by (intro only_logs_intros assms)
  show ?thesis
    unfolding evaluate_ir_function_def andthen_assoc
    by (rule log_run_command_andthen_events) (rule k)
qed

lemma evaluate_ir_proc_andthen_events:
  assumes "\<And>x. only_logs P (K x)" "\<And>cmd. P (Subprocess cmd)"
  shows "\<exists>evs. events (snd (andthen (evaluate_ir_proc env ir ab names jit options) K s))
           = events s @ Evaluate_ir ir jit # evs
           \<and> (\<forall>ev \<in> set evs. P ev)"
  unfolding evaluate_ir_proc_def andthen_assoc
  by (rule log_andthen_events)
     (intro only_logs_intros only_logs_case_option assms)

lemma channel_inputs_ok:
  "\<forall>row \<in> set rows. length row = length names \<Longrightarrow> \<exists>d'. channel_inputs names rows d = Inr d'"
  by (induction rows arbitrary: d) auto

lemma log_andthen: "andthen (log ev) g s = g () (s\<lparr>events := events s @ [ev]\<rparr>)"
  by (simp add: andthen_def log_def)

lemma write_file_andthen:
  "andthen (write_file f c) g s = g f (s\<lparr>files := (files s)(f \<mapsto> c)\<rparr>)"
  by (simp add: andthen_def write_file_def)

lemma lift_Inr: "lift (Inr x) = returns x"
  by (rule ext) (simp add: lift_def returns_def)

lemma evaluate_ir_proc_andthen_subprocess:
  assumes "\<And>x. only_logs P (K x)"
    and "\<forall>row \<in> set batch. length row = length names"
  shows "\<exists>evs. events (snd (andthen
             (evaluate_ir_proc env ir (Some batch) (Some names) jit options) K s))
           = events s @ Evaluate_ir ir jit
               # Subprocess ([EVAL_PROC_MAIN_PATH,
                    ''--inputs_for_all_channels=channel_inputs.txt'',
                    ''--ticks='' @ str_nat (length batch),
                    ''--backend='' @ (if jit then ''serial_jit'' else ''ir_interpreter''), ir]
                   @ (if verbosity env > 0 then [''-v='' @ str_nat (verbosity env)] else [])
                   @ [''--logtostderr''])
               # evs
           \<and> (\<forall>ev \<in> set evs. P ev)"
proof -
  obtain d where d: "channel_inputs names batch (empty_channels names) = Inr d"
    using channel_inputs_ok [OF assms(2)] by blast
  let ?k = "\<lambda>results_text.
      andthen (write_file (ir @ ''.results'') results_text) (\<lambda>f.
      andthen (lift (parse_channel_values env results_text (length batch))) K)"
  let ?s2 = "s\<lparr>events := events s @ [Evaluate_ir ir jit],
               files := (files s)(''channel_inputs.txt'' \<mapsto> channel_values_to_string env d)\<rparr>"
  let ?run = "run_command env
                (''Evaluating IR file ('' @ (if jit then ''JIT'' else ''interpreter'')
                 @ ''): '' @ ir)
                (EVAL_PROC_MAIN_PATH #
                 [''--inputs_for_all_channels=channel_inputs.txt'',
                  ''--ticks='' @ str_nat (length batch),
                  ''--backend='' @ (if jit then ''serial_jit'' else ''ir_interpreter''),
                  ir])
                options"
  have k: "only_logs P (?k t)" for t
    by (intro only_logs_intros assms(1))
  have a: "andthen (evaluate_ir_proc env ir (Some batch) (Some names) jit options) K s
         = andthen ?run ?k ?s2"
    apply (simp only: evaluate_ir_proc_def option.case d lift_Inr andthen_returns andthen_assoc)
    apply (simp only: log_andthen write_file_andthen)
    apply simp
    done
  obtain evs where
    "events (snd (andthen ?run ?k ?s2)) = events (snd (?run ?s2)) @ evs"
    "\<forall>ev \<in> set evs. P ev"
    using andthen_events [of P ?k ?run ?s2, OF k] by blast
  then show ?thesis unfolding a by (simp add: run_command_events)
qed

lemmas demo_proc_defs = run_proc_def run_proc_stages_def run_proc_ir_def evaluate_ir_proc_def
  channel_inputs.simps empty_channels_def dict_append_def EVAL_PROC_MAIN_PATH_def
  NoneType_not_iterable_def

text \<open>
  C7, as the code has it. When the run comes to the stages on the IR file
  and an args file is given, the first thing it does, in function mode and
  in proc mode, with \<open>use_jit\<close> or without, is to call the evaluation of the
  unoptimized IR with the interpreter (\<open>use_jit = False\<close>). In function mode
  the next event is the subprocess of the evaluator with \<open>--nouse_llvm_jit\<close>.
  In proc mode the next event is the subprocess of the proc evaluator with
  \<open>--backend=ir_interpreter\<close> when the batch and the channel names are there
  and every entry of the batch has one value for each channel name; when the
  channel names are not there, the evaluation raises a TypeError before it
  starts a tool. When \<open>use_jit\<close> is false, no evaluation with the JIT is
  among the events that follow.
\<close>

theorem unoptimized_ir_interpreted:
  assumes "args_filename = Some f"
  shows "\<exists>evs evs'.
      events (snd (run_function_ir env options ir args_filename results s))
        = events s @ Evaluate_ir ir False
            # Subprocess ([EVAL_IR_MAIN_PATH, ''--input_file='' @ f, ''--nouse_llvm_jit'', ir]
                @ (if verbosity env > 0 then [''-v='' @ str_nat (verbosity env)] else [])
                @ [''--logtostderr''])
            # evs
      \<and> events (snd (run_proc_ir env options ir args_filename args_batch names presults s))
        = events s @ Evaluate_ir ir False # evs'
      \<and> (\<forall>batch ns.
            args_batch = Some batch \<and> names = Some ns
            \<and> (\<forall>row \<in> set batch. length row = length ns)
            \<longrightarrow> (\<exists>evs''. evs' =
                   Subprocess ([EVAL_PROC_MAIN_PATH,
                       ''--inputs_for_all_channels=channel_inputs.txt'',
                       ''--ticks='' @ str_nat (length batch), ''--backend=ir_interpreter'', ir]
                     @ (if verbosity env > 0 then [''-v='' @ str_nat (verbosity env)] else [])
                     @ [''--logtostderr''])
                   # evs''))
      \<and> (names = None
            \<longrightarrow> run_proc_ir env options ir args_filename args_batch names presults s
                = (Inl (TypeError
                     ([CHR 0x27] @ ''NoneType'' @ [CHR 0x27] @ '' object is not iterable'')),
                   s\<lparr>events := events s @ [Evaluate_ir ir False]\<rparr>))
      \<and> (\<not> use_jit options
           \<longrightarrow> (\<forall>g. Evaluate_ir g True \<notin> set evs \<and> Evaluate_ir g True \<notin> set evs'))"
proof -
  let ?P = "\<lambda>ev. ev \<noteq> Compare_results \<and> (use_jit options \<or> (\<forall>g. ev \<noteq> Evaluate_ir g True))"
  let ?proc = "run_proc_ir env options ir args_filename args_batch names presults s"
  have "\<exists>evs. events (snd (run_function_ir env options ir args_filename results s))
        = events s @ Evaluate_ir ir False
            # Subprocess ([EVAL_IR_MAIN_PATH, ''--input_file='' @ f,
                  if False then ''--use_llvm_jit'' else ''--nouse_llvm_jit'', ir]
                @ (if verbosity env > 0 then [''-v='' @ str_nat (verbosity env)] else [])
                @ [''--logtostderr''])
            # evs \<and> (\<forall>ev \<in> set evs. ?P ev)"
    unfolding run_function_ir_def assms
    apply (simp only: option.distinct not_False_eq_True if_True option.sel)
    apply (subst andthen_assoc)
    apply (rule evaluate_ir_function_andthen_events)
    apply (intro only_logs_stage_intros)
    apply simp_all
    done
  then obtain evs where f:
      "events (snd (run_function_ir env options ir args_filename results s))
        = events s @ Evaluate_ir ir False
            # Subprocess ([EVAL_IR_MAIN_PATH, ''--input_file='' @ f, ''--nouse_llvm_jit'', ir]
                @ (if verbosity env > 0 then [''-v='' @ str_nat (verbosity env)] else [])
                @ [''--logtostderr''])
            # evs" "\<forall>ev \<in> set evs. ?P ev"
    by auto
  have "\<exists>evs. events (snd ?proc) = events s @ Evaluate_ir ir False # evs
          \<and> (\<forall>ev \<in> set evs. ?P ev)"
    unfolding run_proc_ir_def assms
    apply (simp only: option.distinct not_False_eq_True if_True option.sel)
    apply (subst andthen_assoc)
    apply (rule evaluate_ir_proc_andthen_events)
    apply (intro only_logs_stage_intros)
    apply simp_all
    done
  then obtain evs' where p:
      "events (snd ?proc) = events s @ Evaluate_ir ir False # evs'" "\<forall>ev \<in> set evs'. ?P ev"
    by blast
  have tool: "\<exists>evs''. evs' =
                   Subprocess ([EVAL_PROC_MAIN_PATH,
                       ''--inputs_for_all_channels=channel_inputs.txt'',
                       ''--ticks='' @ str_nat (length batch), ''--backend=ir_interpreter'', ir]
                     @ (if verbosity env > 0 then [''-v='' @ str_nat (verbosity env)] else [])
                     @ [''--logtostderr''])
                   # evs''"
    if h: "args_batch = Some batch" "names = Some ns" "\<forall>row \<in> set batch. length row = length ns"
    for batch ns
  proof -
    have "\<exists>evs. events (snd ?proc)
        = events s @ Evaluate_ir ir False
            # Subprocess ([EVAL_PROC_MAIN_PATH,
                  ''--inputs_for_all_channels=channel_inputs.txt'',
                  ''--ticks='' @ str_nat (length batch),
                  ''--backend='' @ (if False then ''serial_jit'' else ''ir_interpreter''), ir]
                @ (if verbosity env > 0 then [''-v='' @ str_nat (verbosity env)] else [])
                @ [''--logtostderr''])
            # evs \<and> (\<forall>ev \<in> set evs. ?P ev)"
      unfolding run_proc_ir_def assms h(1,2)
      apply (simp only: option.distinct not_False_eq_True if_True option.sel)
      apply (subst andthen_assoc)
      apply (rule evaluate_ir_proc_andthen_subprocess)
       apply (intro only_logs_stage_intros)
                          apply simp_all
      apply (rule h(3))
      done
    then show ?thesis using p(1) by auto
  qed
  have none: "?proc = (Inl (TypeError
                     ([CHR 0x27] @ ''NoneType'' @ [CHR 0x27] @ '' object is not iterable'')),
                   s\<lparr>events := events s @ [Evaluate_ir ir False]\<rparr>)"
    if "names = None"
    using that assms
    by (simp add: run_proc_ir_def evaluate_ir_proc_def andthen_assoc log_andthen raises_def
        NoneType_not_iterable_def)
  show ?thesis using f p tool none by blast
qed

text \<open>An example with \<open>use_jit\<close> set, in function mode and in proc mode.\<close>

theorem unoptimized_ir_interpreted_witness:
  "take 2 (events (snd (run_function_ir (demo_env tools_ok demo_options)
      (demo_options\<lparr>use_jit := True\<rparr>) ''sample.ir'' (Some ''args.txt'') [] demo_runner)))
   = [Evaluate_ir ''sample.ir'' False,
      Subprocess [''xls/tools/eval_ir_main'', ''--input_file=args.txt'', ''--nouse_llvm_jit'',
        ''sample.ir'', ''--logtostderr'']]
   \<and> take 2 (events (snd (run_proc_ir (demo_env tools_ok demo_options)
      (demo_options\<lparr>use_jit := True\<rparr>) ''sample.ir'' (Some ''args.txt'')
      (Some [[UBits 8 1]]) (Some [''in'']) [] demo_runner)))
   = [Evaluate_ir ''sample.ir'' False,
      Subprocess [''xls/tools/eval_proc_main'', ''--inputs_for_all_channels=channel_inputs.txt'',
        ''--ticks=1'', ''--backend=ir_interpreter'', ''sample.ir'', ''--logtostderr'']]"
  using unoptimized_ir_interpreted
    [where args_filename = "Some ''args.txt''" and f = "''args.txt''"
       and env = "demo_env tools_ok demo_options"
       and options = "demo_options\<lparr>use_jit := True\<rparr>" and ir = "''sample.ir''"
       and results = "[]" and s = demo_runner and args_batch = "Some [[UBits 8 1]]"
       and names = "Some [''in'']" and presults = "[]"]
  by (auto simp: demo_runner_def demo_env_def EVAL_IR_MAIN_PATH_def EVAL_PROC_MAIN_PATH_def
      str_nat.simps)

text \<open>
  C7 as stated fails in proc mode: an IR input with an args file, whose
  batch is parsed, and no file of channel names. The run comes to the
  evaluation of the unoptimized IR, which raises the TypeError of the missing
  channel names: the call of the evaluation is the only event of the run, no
  tool was started and the unoptimized IR was not evaluated.
\<close>

theorem proc_without_channel_names:
  "fst (run_proc (demo_env tools_ok demo_options) ''sample.ir''
          (demo_options\<lparr>top_type := TopType_proc, use_jit := True\<rparr>)
          (Some ''args.txt'') None None demo_runner)
     = Inl (TypeError ([CHR 0x27] @ ''NoneType'' @ [CHR 0x27] @ '' object is not iterable''))
   \<and> events (snd (run_proc (demo_env tools_ok demo_options) ''sample.ir''
          (demo_options\<lparr>top_type := TopType_proc, use_jit := True\<rparr>)
          (Some ''args.txt'') None None demo_runner))
     = [Evaluate_ir ''sample.ir'' False]"
  by (simp add: demo_run_defs demo_proc_defs)

subsection \<open>The flag \<open>convert_to_ir\<close> when the input is IR\<close>

lemma run_command_convert_to_ir [simp]:
  "run_command env desc args (options\<lparr>convert_to_ir := b\<rparr>) = run_command env desc args options"
  by (rule ext) (simp add: run_command_def Let_def split: list.splits completed.splits)

lemma stages_convert_to_ir [simp]:
  "evaluate_ir_function env ir f jit (options\<lparr>convert_to_ir := b\<rparr>)
     = evaluate_ir_function env ir f jit options"
  "evaluate_ir_proc env ir ab names jit (options\<lparr>convert_to_ir := b\<rparr>)
     = evaluate_ir_proc env ir ab names jit options"
  "optimize_ir_method env ir (options\<lparr>convert_to_ir := b\<rparr>) = optimize_ir_method env ir options"
  "codegen_method env ir cg (options\<lparr>convert_to_ir := b\<rparr>) = codegen_method env ir cg options"
  "simulate_function env v sg f (options\<lparr>convert_to_ir := b\<rparr>)
     = simulate_function env v sg f options"
  by (simp_all add: evaluate_ir_function_def evaluate_ir_proc_def optimize_ir_method_def
      codegen_method_def simulate_function_def cong: option.case_cong if_cong)

lemma run_ir_convert_to_ir:
  "run_function_ir env (options\<lparr>convert_to_ir := b\<rparr>) ir args results
     = run_function_ir env options ir args results"
  "run_proc_ir env (options\<lparr>convert_to_ir := b\<rparr>) ir args ab names presults
     = run_proc_ir env options ir args ab names presults"
  by (simp_all add: run_function_ir_def run_proc_ir_def cong: option.case_cong if_cong)

lemma run_stages_convert_to_ir:
  assumes "\<not> input_is_dslx options"
  shows "run_function_stages env input (options\<lparr>convert_to_ir := b\<rparr>) args
           = run_function_stages env input options args"
    and "run_proc_stages env input (options\<lparr>convert_to_ir := b\<rparr>) args chan init
           = run_proc_stages env input options args chan init"
  using assms
  by (simp_all add: run_function_stages_def run_proc_stages_def run_ir_convert_to_ir)

lemma andthen_Inr_elim:
  assumes "andthen m f s = (Inr y, s2)"
  obtains x s1 where "m s = (Inr x, s1)" "f x s1 = (Inr y, s2)"
  using assms by (cases "m s"; cases "fst (m s)") (auto simp: andthen_def)

lemma andthen_returns_Some:
  assumes "andthen m (\<lambda>x. returns (Some (g x))) s = (Inr r, s1)"
  shows "r \<noteq> None"
  using assms by (auto simp: andthen_def returns_def split: prod.splits sum.splits)

lemma ir_input_no_early_return:
  assumes "\<not> input_is_dslx options"
  shows "run_function_stages env input options args s = (Inr r, s1) \<Longrightarrow> r \<noteq> None"
    and "run_proc_stages env input options args chan init s = (Inr r', s1) \<Longrightarrow> r' \<noteq> None"
proof -
  assume "run_function_stages env input options args s = (Inr r, s1)"
  then show "r \<noteq> None"
    unfolding run_function_stages_def using assms
    by (auto simp: andthen_def returns_def split: prod.splits sum.splits)
next
  assume "run_proc_stages env input options args chan init s = (Inr r', s1)"
  then show "r' \<noteq> None"
    unfolding run_proc_stages_def using assms
    by (auto simp: andthen_def returns_def split: prod.splits sum.splits)
qed

lemma compared_if_Some:
  "andthen (log Compare_results) (\<lambda>u. lift c) s = (r, s1) \<Longrightarrow> Compare_results \<in> set (events s1)"
  by (auto simp: andthen_def log_def lift_def)

lemma stages_events_kept:
  assumes "Compare_results \<in> set (events s)" "only_logs P m"
  shows "Compare_results \<in> set (events (snd (m s)))"
  using assms unfolding only_logs_def by (metis Un_iff set_append)

lemma read_optional_state: "snd (read_optional parse filename s) = s"
  by (simp add: read_optional_def andthen_def read_file_def lift_def returns_def
      split: option.splits sum.splits)

lemma only_logs_events:
  assumes "only_logs P m" "m s = (r, s1)"
  shows "\<exists>evs. events s1 = events s @ evs"
  using assms unfolding only_logs_def by (metis snd_conv)

lemma run_function_compared:
  assumes "\<not> input_is_dslx options" "run_function env input options args s = (Inr (), s1)"
  shows "Compare_results \<in> set (drop (length (events s)) (events s1))"
proof -
  obtain r s' where st: "run_function_stages env input options args s = (Inr r, s')"
      and k: "(case r of None \<Rightarrow> returns ()
               | Some (results, args_batch) \<Rightarrow>
                   andthen (log Compare_results) (\<lambda>u.
                   lift (compare_results_function (vops env) results args_batch))) s'
              = (Inr (), s1)"
    using assms(2) unfolding run_function_def by (elim andthen_Inr_elim)
  obtain results ab where r: "r = Some (results, ab)"
    using ir_input_no_early_return(1) [OF assms(1) st] by (cases r) auto
  obtain evs where e: "events s' = events s @ evs"
    using only_logs_events [OF only_logs_run_function_stages [of "\<lambda>ev. True"] st] by auto
  have "events s1 = events s' @ [Compare_results]"
    using k r by (auto simp: andthen_def log_def lift_def)
  then show ?thesis using e by simp
qed

lemma run_proc_compared:
  assumes "\<not> input_is_dslx options"
    "run_proc env input options args chan init s = (Inr (), s1)"
  shows "Compare_results \<in> set (drop (length (events s)) (events s1))"
proof -
  obtain r s' where st: "run_proc_stages env input options args chan init s = (Inr r, s')"
      and k: "(case r of None \<Rightarrow> returns ()
               | Some results \<Rightarrow>
                   andthen (log Compare_results) (\<lambda>u.
                   lift (compare_results_proc (vops env) results))) s'
              = (Inr (), s1)"
    using assms(2) unfolding run_proc_def by (elim andthen_Inr_elim)
  obtain results where r: "r = Some results"
    using ir_input_no_early_return(2) [OF assms(1) st] by (cases r) auto
  obtain evs where e: "events s' = events s @ evs"
    using only_logs_events [OF only_logs_run_proc_stages [of "\<lambda>ev. True"] st] by auto
  have "events s1 = events s' @ [Compare_results]"
    using k r by (auto simp: andthen_def log_def lift_def)
  then show ?thesis using e by simp
qed

lemma run_function_ir_input:
  assumes "\<not> input_is_dslx options" "files s input = Some text"
    "fst (read_optional (parse_args_batch env) args s) = Inr ab"
  shows "run_function env input options args s =
           andthen (run_function_ir env options ''sample.ir'' args [])
             (\<lambda>results. andthen (log Compare_results) (\<lambda>u.
                lift (compare_results_function (vops env) results ab)))
             (s\<lparr>files := (files s)(''sample.ir'' \<mapsto> text)\<rparr>)"
proof -
  have a: "read_optional (parse_args_batch env) args s = (Inr ab, s)"
    using assms(3) read_optional_state [of "parse_args_batch env" args s]
    by (metis prod.collapse)
  show ?thesis
    unfolding run_function_def run_function_stages_def using assms(1,2) a
    by (simp add: andthen_assoc)
       (simp add: andthen_def read_file_def write_file_def split: prod.splits sum.splits)
qed

lemma run_proc_ir_input:
  assumes "\<not> input_is_dslx options" "files s input = Some text"
    "fst (read_optional (parse_args_batch env) args s) = Inr ab"
    "fst (read_optional (parse_ir_channel_names env) chan s) = Inr names"
    "fst (read_optional (parse_proc_init_values env) init s) = Inr init_values"
  shows "run_proc env input options args chan init s =
           andthen (run_proc_ir env options ''sample.ir'' args ab names [])
             (\<lambda>results. andthen (log Compare_results) (\<lambda>u.
                lift (compare_results_proc (vops env) results)))
             (s\<lparr>files := (files s)(''sample.ir'' \<mapsto> text)\<rparr>)"
proof -
  have a: "read_optional (parse_args_batch env) args s = (Inr ab, s)"
    using assms(3) read_optional_state [of "parse_args_batch env" args s]
    by (metis prod.collapse)
  have b: "read_optional (parse_ir_channel_names env) chan s = (Inr names, s)"
    using assms(4) read_optional_state [of "parse_ir_channel_names env" chan s]
    by (metis prod.collapse)
  have c: "read_optional (parse_proc_init_values env) init s = (Inr init_values, s)"
    using assms(5) read_optional_state [of "parse_proc_init_values env" init s]
    by (metis prod.collapse)
  show ?thesis
    unfolding run_proc_def run_proc_stages_def using assms(1,2) a b c
    by (simp add: andthen_assoc)
       (simp add: andthen_def read_file_def write_file_def split: prod.splits sum.splits)
qed

text \<open>
  C9. When the input is not DSLX, the flag \<open>convert_to_ir\<close> is not read: a run
  with the flag set either way is the same action, in function mode and in
  proc mode (same result, same files, same events). Such a run never ends
  early: when it returns without an error, the comparison is among the
  events it logged. And once the input file and the optional files are read,
  the run is: write the input text to \<open>sample.ir\<close>, run the stages on
  \<open>sample.ir\<close> as the other options say, compare.
\<close>

theorem convert_to_ir_ignored_for_ir_input:
  assumes "\<not> input_is_dslx options"
  shows "run_function env input (options\<lparr>convert_to_ir := b\<rparr>) args
           = run_function env input options args
       \<and> run_proc env input (options\<lparr>convert_to_ir := b\<rparr>) args chan init
           = run_proc env input options args chan init
       \<and> (\<forall>s s1. run_function env input options args s = (Inr (), s1)
             \<longrightarrow> Compare_results \<in> set (drop (length (events s)) (events s1)))
       \<and> (\<forall>s s1. run_proc env input options args chan init s = (Inr (), s1)
             \<longrightarrow> Compare_results \<in> set (drop (length (events s)) (events s1)))
       \<and> (\<forall>s text ab.
             files s input = Some text
             \<and> fst (read_optional (parse_args_batch env) args s) = Inr ab
             \<longrightarrow> run_function env input options args s =
                   andthen (run_function_ir env options ''sample.ir'' args [])
                     (\<lambda>results. andthen (log Compare_results) (\<lambda>u.
                        lift (compare_results_function (vops env) results ab)))
                     (s\<lparr>files := (files s)(''sample.ir'' \<mapsto> text)\<rparr>))
       \<and> (\<forall>s text ab names init_values.
             files s input = Some text
             \<and> fst (read_optional (parse_args_batch env) args s) = Inr ab
             \<and> fst (read_optional (parse_ir_channel_names env) chan s) = Inr names
             \<and> fst (read_optional (parse_proc_init_values env) init s) = Inr init_values
             \<longrightarrow> run_proc env input options args chan init s =
                   andthen (run_proc_ir env options ''sample.ir'' args ab names [])
                     (\<lambda>results. andthen (log Compare_results) (\<lambda>u.
                        lift (compare_results_proc (vops env) results)))
                     (s\<lparr>files := (files s)(''sample.ir'' \<mapsto> text)\<rparr>))"
proof -
  have a: "run_function env input (options\<lparr>convert_to_ir := b\<rparr>) args
           = run_function env input options args"
    by (simp add: run_function_def run_stages_convert_to_ir(1) [OF assms])
  have b: "run_proc env input (options\<lparr>convert_to_ir := b\<rparr>) args chan init
           = run_proc env input options args chan init"
    by (simp add: run_proc_def run_stages_convert_to_ir(2) [OF assms])
  have c: "\<forall>s s1. run_function env input options args s = (Inr (), s1)
             \<longrightarrow> Compare_results \<in> set (drop (length (events s)) (events s1))"
    using run_function_compared [OF assms] by blast
  have d: "\<forall>s s1. run_proc env input options args chan init s = (Inr (), s1)
             \<longrightarrow> Compare_results \<in> set (drop (length (events s)) (events s1))"
    using run_proc_compared [OF assms] by blast
  have e: "\<forall>s text ab.
             files s input = Some text
             \<and> fst (read_optional (parse_args_batch env) args s) = Inr ab
             \<longrightarrow> run_function env input options args s =
                   andthen (run_function_ir env options ''sample.ir'' args [])
                     (\<lambda>results. andthen (log Compare_results) (\<lambda>u.
                        lift (compare_results_function (vops env) results ab)))
                     (s\<lparr>files := (files s)(''sample.ir'' \<mapsto> text)\<rparr>)"
    using run_function_ir_input [OF assms] by blast
  have f: "\<forall>s text ab names init_values.
             files s input = Some text
             \<and> fst (read_optional (parse_args_batch env) args s) = Inr ab
             \<and> fst (read_optional (parse_ir_channel_names env) chan s) = Inr names
             \<and> fst (read_optional (parse_proc_init_values env) init s) = Inr init_values
             \<longrightarrow> run_proc env input options args chan init s =
                   andthen (run_proc_ir env options ''sample.ir'' args ab names [])
                     (\<lambda>results. andthen (log Compare_results) (\<lambda>u.
                        lift (compare_results_proc (vops env) results)))
                     (s\<lparr>files := (files s)(''sample.ir'' \<mapsto> text)\<rparr>)"
    using run_proc_ir_input [OF assms] by blast
  show ?thesis by (intro conjI a b c d e f)
qed

text \<open>
  An example: IR input with \<open>convert_to_ir\<close> false runs all stages and the
  comparison.
\<close>

theorem convert_to_ir_ignored_for_ir_input_witness:
  "run_function (demo_env tools_ok demo_options) ''sample.ir''
     (demo_options\<lparr>convert_to_ir := False\<rparr>) (Some ''args.txt'')
   = run_function (demo_env tools_ok demo_options) ''sample.ir'' demo_options
       (Some ''args.txt'')
   \<and> fst (run_function (demo_env tools_ok demo_options) ''sample.ir''
       (demo_options\<lparr>convert_to_ir := False\<rparr>) (Some ''args.txt'') demo_runner) = Inr ()
   \<and> Compare_results \<in> set (events (snd (run_function (demo_env tools_ok demo_options)
       ''sample.ir'' (demo_options\<lparr>convert_to_ir := False\<rparr>) (Some ''args.txt'')
       demo_runner)))"
proof -
  let ?env = "demo_env tools_ok demo_options"
  have n: "\<not> input_is_dslx demo_options" by (simp add: demo_options_def)
  have e: "run_function ?env ''sample.ir'' (demo_options\<lparr>convert_to_ir := False\<rparr>)
             (Some ''args.txt'')
           = run_function ?env ''sample.ir'' demo_options (Some ''args.txt'')"
    using convert_to_ir_ignored_for_ir_input [OF n, of ?env "''sample.ir''" False
        "Some ''args.txt''"]
    by blast
  have r: "fst (run_function ?env ''sample.ir'' demo_options (Some ''args.txt'') demo_runner)
           = Inr ()"
    by (simp add: demo_run_defs compare_results_function_def dict_get_def tuple_index_def
        Value_ops_def value_eq_def)
  have c: "Compare_results \<in> set (events (snd (run_function ?env ''sample.ir'' demo_options
             (Some ''args.txt'') demo_runner)))"
    by (simp add: demo_run_defs)
  show ?thesis using e r c by simp
qed

subsection \<open>Simulation asked for without arguments (function mode)\<close>

lemma never_returns_raises: "never_returns (raises e)"
  by (simp add: never_returns_def raises_def)

lemma never_returns_andthen_first: "never_returns m \<Longrightarrow> never_returns (andthen m f)"
  unfolding never_returns_def
proof
  fix s
  assume a: "\<forall>s. \<exists>e. fst (m s) = Inl e"
  then obtain e where "fst (m s) = Inl e" by blast
  then have "m s = (Inl e, snd (m s))" by (metis prod.collapse)
  then have "andthen m f s = (Inl e, snd (m s))" by (rule andthen_Inl)
  then show "\<exists>e. fst (andthen m f s) = Inl e" by simp
qed

lemma never_returns_andthen_cont:
  assumes "\<And>x. never_returns (f x)"
  shows "never_returns (andthen m f)"
  unfolding never_returns_def
proof
  fix s
  show "\<exists>e. fst (andthen m f s) = Inl e"
  proof (cases "m s")
    case (Pair r s1)
    show ?thesis
    proof (cases r)
      case (Inl e)
      then show ?thesis using Pair by (simp add: andthen_def)
    next
      case (Inr x)
      then show ?thesis
        using Pair assms [of x] unfolding never_returns_def by (simp add: andthen_def)
    qed
  qed
qed

lemma raises_only_raises: "raises_only e (raises e)"
  by (simp add: raises_only_def raises_def)

lemma raises_only_andthen:
  assumes "succeeds m" "\<And>x. raises_only e (f x)"
  shows "raises_only e (andthen m f)"
  unfolding raises_only_def
proof
  fix s
  obtain x where "fst (m s) = Inr x" using assms(1) unfolding succeeds_def by blast
  then have "m s = (Inr x, snd (m s))" by (metis prod.collapse)
  then have "andthen m f s = f x (snd (m s))" by (rule andthen_Inr)
  then show "fst (andthen m f s) = Inl e"
    using assms(2) [of x] unfolding raises_only_def by simp
qed

lemma raises_only_andthen_first: "raises_only e m \<Longrightarrow> raises_only e (andthen m f)"
  unfolding raises_only_def
proof
  fix s
  assume "\<forall>s. fst (m s) = Inl e"
  then have "m s = (Inl e, snd (m s))" by (metis prod.collapse)
  then have "andthen m f s = (Inl e, snd (m s))" by (rule andthen_Inl)
  then show "fst (andthen m f s) = Inl e" by simp
qed

lemma succeeds_returns: "succeeds (returns x)"
  by (simp add: succeeds_def returns_def)

lemma succeeds_log: "succeeds (log ev)"
  by (simp add: succeeds_def log_def)

lemma succeeds_write_file: "succeeds (write_file f c)"
  by (simp add: succeeds_def write_file_def)

lemma succeeds_andthen:
  assumes "succeeds m" "\<And>x. succeeds (f x)"
  shows "succeeds (andthen m f)"
  unfolding succeeds_def
proof
  fix s
  obtain x where "fst (m s) = Inr x" using assms(1) unfolding succeeds_def by blast
  then have "m s = (Inr x, snd (m s))" by (metis prod.collapse)
  then have "andthen m f s = f x (snd (m s))" by (rule andthen_Inr)
  then show "\<exists>y. fst (andthen m f s) = Inr y"
    using assms(2) [of x] unfolding succeeds_def by simp
qed

lemma succeeds_run_command:
  assumes "always_succeeds env a"
  shows "succeeds (run_command env desc (a # args) options)"
  unfolding succeeds_def
proof
  fix s :: runner
  let ?rest = "args
      @ (if verbosity env > 0 then [''-v='' @ str_nat (verbosity env)] else [])
      @ [''--logtostderr'']"
  let ?files = "(files s)(basename a @ ''.stderr'' \<mapsto> [])"
  obtain out err where
    "subprocess_run env (a # ?rest) (timeout_seconds options) ?files = Exited 0 out err"
    using assms unfolding always_succeeds_def by blast
  then show "\<exists>x. fst (run_command env desc (a # args) options s) = Inr x"
    by (cases "0 < verbosity env") (simp_all add: run_command_def Let_def)
qed

lemmas succeeds_intros =
  succeeds_returns succeeds_log succeeds_write_file succeeds_andthen succeeds_run_command

lemma succeeds_optimize_ir_method:
  "always_succeeds env IR_OPT_MAIN_PATH \<Longrightarrow> succeeds (optimize_ir_method env ir options)"
  unfolding optimize_ir_method_def by (intro succeeds_intros)

lemma succeeds_codegen_method:
  "always_succeeds env CODEGEN_MAIN_PATH \<Longrightarrow> succeeds (codegen_method env ir cg options)"
  unfolding codegen_method_def by (simp only: append_Cons) (intro succeeds_intros)

lemma succeeds_dslx_to_ir_function:
  "always_succeeds env IR_CONVERTER_MAIN_PATH \<Longrightarrow> succeeds (dslx_to_ir_function env f options)"
  unfolding dslx_to_ir_function_def by (simp only: append_Cons) (intro succeeds_intros)

lemma read_optional_None [simp]: "read_optional parse None = returns None"
  by (simp add: read_optional_def truthy_def)

lemma run_function_ir_no_args:
  assumes "optimize_ir options" "codegen options" "simulate options"
  shows "run_function_ir env options ir None results =
           andthen (optimize_ir_method env ir options) (\<lambda>opt_ir_filename.
           andthen (codegen_method env opt_ir_filename (codegen_args options) options)
             (\<lambda>verilog_filename. raises AssertionError))"
  using assms by (simp add: run_function_ir_def)

lemma run_function_ir_no_args_never_returns:
  assumes "optimize_ir options" "codegen options" "simulate options"
  shows "never_returns (run_function_ir env options ir None results)"
  unfolding run_function_ir_no_args [OF assms]
  by (intro never_returns_andthen_cont never_returns_raises)

lemma run_function_ir_no_args_asserts:
  assumes "optimize_ir options" "codegen options" "simulate options"
    and "always_succeeds env IR_OPT_MAIN_PATH" "always_succeeds env CODEGEN_MAIN_PATH"
  shows "raises_only AssertionError (run_function_ir env options ir None results)"
  unfolding run_function_ir_no_args [OF assms(1-3)]
  by (intro raises_only_andthen succeeds_optimize_ir_method succeeds_codegen_method assms(4,5)
      raises_only_raises)

lemma run_function_no_args_never_returns:
  assumes "optimize_ir options" "codegen options" "simulate options"
    and "\<not> input_is_dslx options \<or> convert_to_ir options"
  shows "never_returns (run_function env input options None)"
proof -
  have ir: "never_returns (run_function_ir env options ir None results)" for ir results
    by (rule run_function_ir_no_args_never_returns) fact+
  have "never_returns (run_function_stages env input options None)"
  proof (cases "input_is_dslx options")
    case True
    then have c: "convert_to_ir options" using assms(4) by simp
    show ?thesis
      unfolding run_function_stages_def using True c
      apply (simp add: truthy_def)
      apply (rule never_returns_andthen_cont)
      apply (rule never_returns_andthen_cont)
      apply (rule never_returns_andthen_first)
      apply (rule ir)
      done
  next
    case False
    show ?thesis
      unfolding run_function_stages_def using False
      apply simp
      apply (rule never_returns_andthen_cont)
      apply (rule never_returns_andthen_cont)
      apply (rule never_returns_andthen_first)
      apply (rule ir)
      done
  qed
  then show ?thesis unfolding run_function_def by (rule never_returns_andthen_first)
qed

lemma run_function_no_args_asserts:
  assumes "optimize_ir options" "codegen options" "simulate options"
    and "\<not> input_is_dslx options \<or> convert_to_ir options"
    and "input_is_dslx options \<Longrightarrow> always_succeeds env IR_CONVERTER_MAIN_PATH"
    and "always_succeeds env IR_OPT_MAIN_PATH" "always_succeeds env CODEGEN_MAIN_PATH"
    and "files s input = Some content"
  shows "fst (run_function env input options None s) = Inl AssertionError"
proof -
  have ir: "raises_only AssertionError (run_function_ir env options ir None results)"
    for ir results
    by (rule run_function_ir_no_args_asserts) fact+
  have rest: "raises_only AssertionError
      (andthen
         (if input_is_dslx options
          then andthen (returns [])
                 (\<lambda>results.
                    if \<not> convert_to_ir options then returns None
                    else andthen (dslx_to_ir_function env input options) (\<lambda>ir_filename.
                         andthen (run_function_ir env options ir_filename None results)
                           (\<lambda>results'. returns (Some (results', None)))))
          else andthen (write_file ''sample.ir'' content) (\<lambda>ir_filename.
               andthen (run_function_ir env options ir_filename None [])
                 (\<lambda>results'. returns (Some (results', None)))))
         (\<lambda>r. case r of
                 None \<Rightarrow> returns ()
               | Some (results, args_batch) \<Rightarrow>
                   andthen (log Compare_results) (\<lambda>u.
                   lift (compare_results_function (vops env) results args_batch))))"
  proof (cases "input_is_dslx options")
    case True
    then have c: "convert_to_ir options" using assms(4) by simp
    have conv: "always_succeeds env IR_CONVERTER_MAIN_PATH" using True by (rule assms(5))
    have "raises_only AssertionError
            (andthen (dslx_to_ir_function env input options) (\<lambda>ir_filename.
             andthen (run_function_ir env options ir_filename None [])
               (\<lambda>results'. andthen (returns (Some (results', None)))
                  (\<lambda>r. case r of
                     None \<Rightarrow> returns ()
                   | Some (results, args_batch) \<Rightarrow>
                       andthen (log Compare_results) (\<lambda>u.
                       lift (compare_results_function (vops env) results args_batch))))))"
      apply (rule raises_only_andthen)
       apply (rule succeeds_dslx_to_ir_function [OF conv])
      apply (rule raises_only_andthen_first)
      apply (rule ir)
      done
    then show ?thesis using True c by (simp add: andthen_assoc)
  next
    case False
    have "raises_only AssertionError
            (andthen (write_file ''sample.ir'' content) (\<lambda>ir_filename.
             andthen (run_function_ir env options ir_filename None [])
               (\<lambda>results'. andthen (returns (Some (results', None)))
                  (\<lambda>r. case r of
                     None \<Rightarrow> returns ()
                   | Some (results, args_batch) \<Rightarrow>
                       andthen (log Compare_results) (\<lambda>u.
                       lift (compare_results_function (vops env) results args_batch))))))"
      apply (rule raises_only_andthen)
       apply (rule succeeds_write_file)
      apply (rule raises_only_andthen_first)
      apply (rule ir)
      done
    then show ?thesis using False by (simp add: andthen_assoc)
  qed
  have "run_function env input options None s =
          andthen
         (if input_is_dslx options
          then andthen (returns [])
                 (\<lambda>results.
                    if \<not> convert_to_ir options then returns None
                    else andthen (dslx_to_ir_function env input options) (\<lambda>ir_filename.
                         andthen (run_function_ir env options ir_filename None results)
                           (\<lambda>results'. returns (Some (results', None)))))
          else andthen (write_file ''sample.ir'' content) (\<lambda>ir_filename.
               andthen (run_function_ir env options ir_filename None [])
                 (\<lambda>results'. returns (Some (results', None)))))
         (\<lambda>r. case r of
                 None \<Rightarrow> returns ()
               | Some (results, args_batch) \<Rightarrow>
                   andthen (log Compare_results) (\<lambda>u.
                   lift (compare_results_function (vops env) results args_batch))) s"
    unfolding run_function_def run_function_stages_def using assms(8)
    by (simp add: andthen_assoc truthy_def)
       (simp add: andthen_def read_file_def)
  then show ?thesis using rest unfolding raises_only_def by simp
qed

lemma run_function_early_return:
  assumes "input_is_dslx options" "\<not> convert_to_ir options" "files s input = Some content"
  shows "run_function env input options None s = (Inr (), s)"
  using assms
  by (simp add: run_function_def run_function_stages_def truthy_def andthen_def read_file_def
      returns_def)

lemma run_from_files_raises:
  assumes "files s json_options_filename = Some json" "options_from_json env json = Inr options"
    and "fst (run_sample env options input_filename args_filename ir_channel_names_filename
           proc_init_values_filename
           (s\<lparr>files := (files s)(''revision.txt'' \<mapsto> get_revision env)\<rparr>)) = Inl e"
  shows "\<exists>s1. run_from_files env input_filename json_options_filename args_filename
           ir_channel_names_filename proc_init_values_filename s
         = (Inl (SampleError (exception_msg env e) (is_TimeoutExpired e)), s1)
       \<and> files s1 ''exception.txt'' = Some (exception_msg env e)"
proof -
  let ?s0 = "s\<lparr>files := (files s)(''revision.txt'' \<mapsto> get_revision env)\<rparr>"
  let ?m = "run_sample env options input_filename args_filename ir_channel_names_filename
              proc_init_values_filename ?s0"
  obtain s1 where m: "?m = (Inl e, s1)" using assms(3) by (metis prod.collapse)
  have "run_from_files env input_filename json_options_filename args_filename
           ir_channel_names_filename proc_init_values_filename s
         = (Inl (SampleError (exception_msg env e) (is_TimeoutExpired e)),
            s1\<lparr>files := (files s1)(''exception.txt'' \<mapsto> exception_msg env e)\<rparr>)"
    using assms(1,2) m
    by (simp add: run_from_files_def andthen_def read_file_def lift_def write_file_def
        try_except_def raises_def)
  then show ?thesis by simp
qed

lemma run_from_files_returns:
  assumes "files s json_options_filename = Some json" "options_from_json env json = Inr options"
    and "run_sample env options input_filename args_filename ir_channel_names_filename
           proc_init_values_filename
           (s\<lparr>files := (files s)(''revision.txt'' \<mapsto> get_revision env)\<rparr>) = (Inr (), s1)"
  shows "run_from_files env input_filename json_options_filename args_filename
           ir_channel_names_filename proc_init_values_filename s = (Inr (), s1)"
  using assms
  by (simp add: run_from_files_def andthen_def read_file_def lift_def write_file_def
      try_except_def)

text \<open>
  C10, as the code has it. In function mode, let the options be read, let
  \<open>optimize_ir\<close>, \<open>codegen\<close> and \<open>simulate\<close> be set and no args file be given.
  When the input is IR or \<open>convert_to_ir\<close> is set, the run never returns: the
  caller gets a SampleError. When moreover the input file is there and the
  optimizer and the code generator (and the converter, for a DSLX input)
  exit with code 0, the run comes to the simulation, the assertion that an
  args file is there fails, and the SampleError has the empty message of the
  assertion and \<open>is_timeout\<close> false; \<open>exception.txt\<close> holds that message. When
  the input is DSLX, \<open>convert_to_ir\<close> is not set and the input file is there,
  the run returns without an error after it has written \<open>revision.txt\<close>: it
  logs no event and writes no other file.
\<close>

theorem simulate_without_args_raises:
  assumes "files s json_options_filename = Some json" "options_from_json env json = Inr options"
    and "top_type options = TopType_function"
    and "optimize_ir options" "codegen options" "simulate options"
  shows "(\<not> input_is_dslx options \<or> convert_to_ir options
          \<longrightarrow> (\<exists>msg t s1.
                 run_from_files env input_filename json_options_filename None
                   ir_channel_names_filename proc_init_values_filename s
                 = (Inl (SampleError msg t), s1)))
       \<and> ((\<not> input_is_dslx options \<or> convert_to_ir options)
            \<and> files s input_filename \<noteq> None
            \<and> (input_is_dslx options \<longrightarrow> always_succeeds env IR_CONVERTER_MAIN_PATH)
            \<and> always_succeeds env IR_OPT_MAIN_PATH
            \<and> always_succeeds env CODEGEN_MAIN_PATH
          \<longrightarrow> (\<exists>s1.
                 run_from_files env input_filename json_options_filename None
                   ir_channel_names_filename proc_init_values_filename s
                 = (Inl (SampleError [] False), s1)
                 \<and> files s1 ''exception.txt'' = Some []))
       \<and> (input_is_dslx options \<and> \<not> convert_to_ir options
            \<and> files s input_filename \<noteq> None
          \<longrightarrow> run_from_files env input_filename json_options_filename None
                 ir_channel_names_filename proc_init_values_filename s
               = (Inr (), s\<lparr>files := (files s)(''revision.txt'' \<mapsto> get_revision env)\<rparr>))"
proof -
  let ?s0 = "s\<lparr>files := (files s)(''revision.txt'' \<mapsto> get_revision env)\<rparr>"
  let ?run = "run_from_files env input_filename json_options_filename None
                ir_channel_names_filename proc_init_values_filename s"
  have sample: "run_sample env options input_filename None ir_channel_names_filename
                  proc_init_values_filename
                = run_function env input_filename options None"
    using assms(3) by (simp add: run_sample_def)
  have there: "\<exists>content. files ?s0 input_filename = Some content"
    if "files s input_filename \<noteq> None"
    using that by auto
  have first: "\<exists>msg t s1. ?run = (Inl (SampleError msg t), s1)"
    if reach: "\<not> input_is_dslx options \<or> convert_to_ir options"
  proof -
    have "never_returns (run_function env input_filename options None)"
      using assms(4,5,6) reach by (rule run_function_no_args_never_returns)
    then obtain e where "fst (run_function env input_filename options None ?s0) = Inl e"
      unfolding never_returns_def by blast
    then show ?thesis
      using run_from_files_raises [OF assms(1,2), of input_filename None
          ir_channel_names_filename proc_init_values_filename e] sample
      by auto
  qed
  have second: "\<exists>s1. ?run = (Inl (SampleError [] False), s1)
                  \<and> files s1 ''exception.txt'' = Some []"
    if reach: "\<not> input_is_dslx options \<or> convert_to_ir options"
      and file_there: "files s input_filename \<noteq> None"
      and conv: "input_is_dslx options \<longrightarrow> always_succeeds env IR_CONVERTER_MAIN_PATH"
      and opt: "always_succeeds env IR_OPT_MAIN_PATH"
      and cg: "always_succeeds env CODEGEN_MAIN_PATH"
  proof -
    obtain content where c: "files ?s0 input_filename = Some content"
      using there [OF file_there] by blast
    have conv': "input_is_dslx options \<Longrightarrow> always_succeeds env IR_CONVERTER_MAIN_PATH"
      using conv by simp
    have "fst (run_function env input_filename options None ?s0) = Inl AssertionError"
      using assms(4,5,6) reach conv' opt cg c by (rule run_function_no_args_asserts)
    then show ?thesis
      using run_from_files_raises [OF assms(1,2), of input_filename None
          ir_channel_names_filename proc_init_values_filename AssertionError] sample
      by (simp add: exception_msg_def is_TimeoutExpired_def)
  qed
  have third: "?run = (Inr (), ?s0)"
    if dslx: "input_is_dslx options" and noconv: "\<not> convert_to_ir options"
      and file_there: "files s input_filename \<noteq> None"
  proof -
    obtain content where c: "files ?s0 input_filename = Some content"
      using there [OF file_there] by blast
    have "run_function env input_filename options None ?s0 = (Inr (), ?s0)"
      using dslx noconv c by (rule run_function_early_return)
    then show ?thesis
      using run_from_files_returns [OF assms(1,2), of input_filename None
          ir_channel_names_filename proc_init_values_filename ?s0] sample
      by simp
  qed
  show ?thesis using first second third by blast
qed

text \<open>
  Two examples: an IR input, where every tool succeeds and the assertion
  fails, and a DSLX input without conversion, where the run returns.
\<close>

theorem simulate_without_args_raises_witness:
  "fst (run_from_files (demo_env tools_ok demo_options) ''sample.ir'' ''options.json'' None
          None None demo_runner)
     = Inl (SampleError [] False)
   \<and> files (snd (run_from_files (demo_env tools_ok demo_options) ''sample.ir''
          ''options.json'' None None None demo_runner)) ''exception.txt''
     = Some []
   \<and> run_from_files
        (demo_env tools_ok (demo_options\<lparr>input_is_dslx := True, convert_to_ir := False\<rparr>))
        ''sample.x'' ''options.json'' None None None demo_runner
     = (Inr (), demo_runner\<lparr>files := (files demo_runner)(''revision.txt'' \<mapsto> ''r1'')\<rparr>)"
  using simulate_without_args_raises
    [of demo_runner "''options.json''" "''{}''" "demo_env tools_ok demo_options" demo_options
        "''sample.ir''" None None]
    simulate_without_args_raises
    [of demo_runner "''options.json''" "''{}''"
        "demo_env tools_ok (demo_options\<lparr>input_is_dslx := True, convert_to_ir := False\<rparr>)"
        "demo_options\<lparr>input_is_dslx := True, convert_to_ir := False\<rparr>"
        "''sample.x''" None None]
  by (auto simp: demo_env_def demo_runner_def demo_options_def tools_ok_def
      always_succeeds_def)

text \<open>
  C10 as stated fails: with the three flags set and no args file, a DSLX
  input with \<open>convert_to_ir\<close> false returns after the (skipped)
  interpretation, before the optimization; nothing is simulated, no
  assertion fails and the run completes successfully.
\<close>

theorem early_return_skips_simulation:
  "fst (run_from_files
          (demo_env tools_ok (demo_options\<lparr>input_is_dslx := True, convert_to_ir := False\<rparr>))
          ''sample.x'' ''options.json'' None None None demo_runner)
     = Inr ()"
  by (simp add: demo_run_defs)

end
